theory Spec2Isabelle
  imports Complex_Main
begin

section \<open>GrooveGalaxy: the combat simulation of the \<open>Game\<close> class\<close>

text \<open>
  A shallow embedding of the \<open>Game\<close> class of the step-sequencer arcade game: the
  budget economy of the pattern grid, the wave table of the defender AI, the weapons of
  the aliens, the threat-zone dodge of the defender, the wave phases and the sequencer.

  JavaScript numbers are modelled exactly: integers as \<open>int\<close> or \<open>nat\<close>, everything
  that can be fractional (coordinates, speeds, times, threat values) as \<open>rat\<close>.  The
  decimal literals of the source (\<open>0.3\<close>, \<open>1.5\<close>, ...) are the fractions they denote.
  State that only feeds the canvas (particles, popups, stars, debris, screen shake,
  trails, colours, toasts) is not part of the model.
\<close>

subsection \<open>Data\<close>

datatype phase = Playing | Prepare | Complete | Cardpick | Gameover

datatype card_id =
    NapalmRounds | ChainLightning | HomingBoost | VolleyFire
  | AlienArmor | QuickRespawn | LootDenial
  | ExtraRow | TempoPush | DoubleTime
  | Scramble | MirrorBeat
  | DamageBoost | HpBoost | SpeedBoost

datatype error = TypeError

text \<open>
  An alien object.  The sites that push aliens give them different sets of properties;
  a property that a site leaves out is \<open>undefined\<close> in the source and \<open>None\<close> here
  (\<open>evolved\<close> is only tested for truth, so a missing one is \<open>False\<close>).
\<close>

record alien =
  a_row :: nat
  a_col :: nat
  a_x :: rat
  a_y :: rat
  a_alive :: bool
  a_evolved :: bool
  a_damage :: "int option"
  a_hp :: "int option"
  a_maxHp :: "int option"
  a_respawnIn :: "int option"

datatype ptype = Cannon | Burst | Homing

record projectile =
  p_type :: ptype
  p_x :: rat
  p_y :: rat
  p_speed :: rat
  p_damage :: int
  p_row :: nat
  p_aliensOnStep :: nat

record fireZone =
  z_x :: rat
  z_y :: rat
  z_life :: int
  z_damageTimer :: int

record defender =
  d_x :: rat
  d_y :: rat
  d_width :: rat
  d_height :: rat
  d_speed :: int

record powerUps =
  shield :: int
  speedBoost :: int
  rapidFire :: int
  spreadShot :: int

text \<open>
  The fields of \<open>Game\<close> that the modelled methods read or write.  \<open>soundLog\<close> is not
  a field of the source: it records, in order, the rows passed to
  \<open>drumMachine.playSound\<close>.  An entry of \<open>aiColumnHeatmap\<close> is \<open>None\<close> where the
  source holds \<open>NaN\<close>.
\<close>

record game =
  currentWave :: int
  currentLoop :: int
  loopsPerWave :: int
  wavePhase :: phase
  phaseTimer :: int
  alienBudget :: int
  alienBudgetMax :: int
  budgetShakeTimer :: int
  aiColumnHeatmap :: "int option list"
  aiAdapting :: bool
  evolvedCells :: "(nat \<times> nat) set"
  isBossWave :: bool
  upgrades :: "card_id set"
  currentCardChoices :: "card_id list"
  fireZones :: "fireZone list"
  defenderMaxHP :: int
  defenderHP :: int
  bossShield :: int
  bossShieldTimer :: int
  bossMissileTimer :: int
  shotDelay :: int
  aiAccuracy :: rat
  aiActive :: bool
  aiShotsPerTurn :: int
  defender :: defender
  gridCols :: nat
  gridRows :: nat
  score :: int
  grid :: "bool list list"
  aliens :: "alien list"
  alienProjectiles :: "projectile list"
  currentStep :: nat
  lastStepTime :: rat
  bpm :: int
  stepInterval :: rat
  activePowerUps :: powerUps
  gameOver :: bool
  isPaused :: bool
  freezeFrames :: int
  touchLeft :: bool
  touchRight :: bool
  soundLog :: "nat list"

subsection \<open>Constants of the constructor\<close>

definition canvas_width :: rat where "canvas_width = 800"
definition canvas_height :: rat where "canvas_height = 600"
definition cellWidth :: rat where "cellWidth = canvas_width / 16"
definition cellHeight :: rat where "cellHeight = 40"
definition gridYOffset :: rat where "gridYOffset = 100"

definition alienCosts :: "int list" where
  "alienCosts = [3, 2, 1, 2, 4]"

text \<open>\<open>this.alienCosts[row] || 1\<close>: a missing or zero entry counts 1.\<close>

definition costOf :: "nat \<Rightarrow> int" where
  "costOf r = (if r < length alienCosts \<and> alienCosts ! r \<noteq> 0 then alienCosts ! r else 1)"

text \<open>\<open>(60 / bpm) * 1000 / 4\<close>.\<close>

definition stepIntervalOf :: "int \<Rightarrow> rat" where
  "stepIntervalOf b = (60 / of_int b) * 1000 / 4"

text \<open>\<open>Math.round\<close> rounds a half upwards.\<close>

definition js_round :: "rat \<Rightarrow> int" where
  "js_round q = \<lfloor>q + 1 / 2\<rfloor>"

definition speedScale :: "int \<Rightarrow> rat" where
  "speedScale b = 1 + ((of_int b - 60) / (200 - 60)) * (3 / 2)"

subsection \<open>JavaScript arrays of booleans\<close>

text \<open>
  Reading past the end gives \<open>undefined\<close>, which is falsy; writing past the end
  extends the array, and the holes read as \<open>undefined\<close>.
\<close>

definition js_get :: "bool list \<Rightarrow> nat \<Rightarrow> bool" where
  "js_get xs i = (i < length xs \<and> xs ! i)"

definition js_set :: "bool list \<Rightarrow> nat \<Rightarrow> bool \<Rightarrow> bool list" where
  "js_set xs i v =
     (if i < length xs then xs[i := v] else xs @ replicate (i - length xs) False @ [v])"

text \<open>
  \<open>this.grid[row][col]\<close> for a row inside the grid.  The loops of the source only
  visit rows below \<open>gridRows\<close>, and the grid always has \<open>gridRows\<close> rows.
\<close>

definition cell :: "bool list list \<Rightarrow> nat \<Rightarrow> nat \<Rightarrow> bool" where
  "cell g r c = (r < length g \<and> js_get (g ! r) c)"

definition set_cell :: "bool list list \<Rightarrow> nat \<Rightarrow> nat \<Rightarrow> bool \<Rightarrow> bool list list" where
  "set_cell g r c v = g[r := js_set (g ! r) c v]"

definition emptyGrid :: "nat \<Rightarrow> nat \<Rightarrow> bool list list" where
  "emptyGrid rows cols = replicate rows (replicate cols False)"

text \<open>The cells in the order of a loop over rows with an inner loop over columns.\<close>

definition cellsRowMajor :: "nat \<Rightarrow> nat \<Rightarrow> (nat \<times> nat) list" where
  "cellsRowMajor rows cols = concat (map (\<lambda>r. map (\<lambda>c. (r, c)) [0..<cols]) [0..<rows])"

text \<open>The cells in the order of a loop over columns with an inner loop over rows.\<close>

definition cellsColMajor :: "nat \<Rightarrow> nat \<Rightarrow> (nat \<times> nat) list" where
  "cellsColMajor rows cols = concat (map (\<lambda>c. map (\<lambda>r. (r, c)) [0..<rows]) [0..<cols])"

subsection \<open>The budget measure of the grid\<close>

definition rowCount :: "bool list \<Rightarrow> int" where
  "rowCount xs = int (length (filter (\<lambda>b. b) xs))"

fun placedFrom :: "nat \<Rightarrow> bool list list \<Rightarrow> int" where
  "placedFrom r [] = 0"
| "placedFrom r (xs # g) = costOf r * rowCount xs + placedFrom (Suc r) g"

text \<open>The sum of \<open>cost[row]\<close> over all placed cells of the grid.\<close>

definition placedCost :: "bool list list \<Rightarrow> int" where
  "placedCost g = placedFrom 0 g"

subsection \<open>Aliens\<close>

definition alienX :: "nat \<Rightarrow> rat" where
  "alienX c = of_nat c * cellWidth + cellWidth / 2"

definition alienY :: "nat \<Rightarrow> rat" where
  "alienY r = of_nat r * cellHeight + gridYOffset + cellHeight / 2"

text \<open>The object pushed by \<open>toggleGridCell\<close> and \<open>loadPreset\<close>.\<close>

definition placedAlien :: "game \<Rightarrow> nat \<Rightarrow> nat \<Rightarrow> alien" where
  "placedAlien s r c =
     (let isEvolved = ((r, c) \<in> evolvedCells s) in
      \<lparr> a_row = r, a_col = c, a_x = alienX c, a_y = alienY r, a_alive = True,
        a_evolved = isEvolved, a_damage = Some (if isEvolved then 2 else 0),
        a_hp = None, a_maxHp = None, a_respawnIn = None \<rparr>)"

text \<open>The object pushed by the \<open>scramble\<close> and \<open>mirrorBeat\<close> upgrades.\<close>

definition upgradeAlien :: "game \<Rightarrow> nat \<Rightarrow> nat \<Rightarrow> alien" where
  "upgradeAlien s r c =
     \<lparr> a_row = r, a_col = c, a_x = alienX c, a_y = alienY r, a_alive = True,
       a_evolved = False, a_damage = None,
       a_hp = Some (if AlienArmor \<in> upgrades s then 2 else 1),
       a_maxHp = None, a_respawnIn = None \<rparr>"

text \<open>The object pushed by \<open>respawnAliens\<close>.\<close>

definition respawnedAlien :: "game \<Rightarrow> nat \<Rightarrow> nat \<Rightarrow> alien" where
  "respawnedAlien s r c =
     (let isEvolved = ((r, c) \<in> evolvedCells s);
          baseHP0 = (if AlienArmor \<in> upgrades s then 2 else 1);
          baseHP = (if isBossWave s then baseHP0 * 3 else baseHP0) in
      \<lparr> a_row = r, a_col = c, a_x = alienX c, a_y = alienY r, a_alive = True,
        a_evolved = isEvolved, a_damage = Some (if isEvolved then 2 else 0),
        a_hp = Some baseHP, a_maxHp = Some baseHP, a_respawnIn = None \<rparr>)"

definition respawnAliens :: "game \<Rightarrow> game" where
  "respawnAliens s =
     s\<lparr>aliens := map (\<lambda>(r, c). respawnedAlien s r c)
                    (filter (\<lambda>(r, c). cell (grid s) r c)
                       (cellsRowMajor (gridRows s) (gridCols s)))\<rparr>"

subsection \<open>Editing the pattern\<close>

definition toggleGridCell :: "nat \<Rightarrow> nat \<Rightarrow> game \<Rightarrow> error + game" where
  "toggleGridCell r c s =
     (if \<not> r < length (grid s) then Inl TypeError
      else if js_get (grid s ! r) c then
        (let s1 = s\<lparr>grid := set_cell (grid s) r c False,
                    aliens := filter (\<lambda>a. \<not> (a_row a = r \<and> a_col a = c)) (aliens s)\<rparr>;
             cost = costOf r;
             s2 = s1\<lparr>alienBudget := alienBudget s1 + cost\<rparr>;
             s3 = (if alienBudget s2 > alienBudgetMax s2
                   then s2\<lparr>alienBudget := alienBudgetMax s2\<rparr> else s2)
         in Inr (s3\<lparr>evolvedCells := evolvedCells s3 - {(r, c)}\<rparr>))
      else
        (let cost = costOf r in
         if alienBudget s < cost then Inr (s\<lparr>budgetShakeTimer := 20\<rparr>)
         else
           (let s1 = s\<lparr>grid := set_cell (grid s) r c True\<rparr>;
                s2 = s1\<lparr>aliens := aliens s1 @ [placedAlien s1 r c]\<rparr>
            in Inr (s2\<lparr>alienBudget := alienBudget s2 - cost\<rparr>))))"

definition clearGrid :: "game \<Rightarrow> game" where
  "clearGrid s =
     s\<lparr>grid := emptyGrid (gridRows s) (gridCols s), aliens := [],
       alienBudget := alienBudgetMax s\<rparr>"

text \<open>
  \<open>pattern[row] && pattern[row][col] === 1\<close>; a preset is an array of rows of numbers.
\<close>

definition presetHas :: "int list list \<Rightarrow> nat \<Rightarrow> nat \<Rightarrow> bool" where
  "presetHas pattern r c =
     (r < length pattern \<and> c < length (pattern ! r) \<and> pattern ! r ! c = 1)"

definition presetStep :: "int list list \<Rightarrow> nat \<times> nat \<Rightarrow> game \<Rightarrow> game" where
  "presetStep pattern rc s =
     (case rc of (r, c) \<Rightarrow>
        if presetHas pattern r c then
          (let cost = costOf r in
           if alienBudget s \<ge> cost then
             (let s1 = s\<lparr>grid := set_cell (grid s) r c True\<rparr>;
                  s2 = s1\<lparr>aliens := aliens s1 @ [placedAlien s1 r c]\<rparr>
              in s2\<lparr>alienBudget := alienBudget s2 - cost\<rparr>)
           else s)
        else s)"

definition loadPreset :: "int list list \<Rightarrow> game \<Rightarrow> game" where
  "loadPreset pattern s =
     (let s0 = clearGrid s
      in fold (presetStep pattern) (cellsColMajor (gridRows s0) (gridCols s0)) s0)"

subsection \<open>The wave table of the defender AI\<close>

definition updateAIForWave :: "game \<Rightarrow> game" where
  "updateAIForWave s =
     (if currentWave s = 1 then
        s\<lparr>shotDelay := 1500, aiAccuracy := 3 / 10, aiShotsPerTurn := 1, defenderMaxHP := 60\<rparr>
      else if currentWave s \<le> 2 then
        s\<lparr>shotDelay := 1200, aiAccuracy := 4 / 10, aiShotsPerTurn := 1,
          defenderMaxHP := 60 + ((currentWave s - 1) * 15)\<rparr>
      else if currentWave s = 3 then
        s\<lparr>shotDelay := 900, aiAccuracy := 5 / 10, aiShotsPerTurn := 1,
          defenderMaxHP := 60 + ((currentWave s - 1) * 15)\<rparr>
      else if currentWave s = 4 then
        s\<lparr>shotDelay := 600, aiAccuracy := 65 / 100, aiShotsPerTurn := 1,
          defenderMaxHP := 60 + ((currentWave s - 1) * 15)\<rparr>
      else if currentWave s mod 5 = 0 then
        s\<lparr>shotDelay := 400, aiAccuracy := 8 / 10, aiShotsPerTurn := 2,
          defenderMaxHP := 60 + ((currentWave s - 1) * 15),
          defender := (defender s)\<lparr>d_speed := js_round (5 * speedScale (bpm s) * (3 / 2))\<rparr>,
          bossShieldTimer := 20 * 60, bossMissileTimer := 30 * 60\<rparr>
      else if currentWave s \<ge> 10 then
        s\<lparr>shotDelay := 200, aiAccuracy := 9 / 10, aiShotsPerTurn := 3,
          defenderMaxHP := 60 + ((currentWave s - 1) * 15)\<rparr>
      else
        s\<lparr>shotDelay := 350, aiAccuracy := 85 / 100, aiShotsPerTurn := 2,
          defenderMaxHP := 60 + ((currentWave s - 1) * 15)\<rparr>)"

subsection \<open>Cards\<close>

text \<open>One cell of the \<open>scramble\<close> loops; \<open>rnd r c\<close> is the outcome of
  \<open>Math.random() < 0.3\<close> at that cell.\<close>

definition scrambleStep :: "(nat \<Rightarrow> nat \<Rightarrow> bool) \<Rightarrow> nat \<times> nat \<Rightarrow> game \<Rightarrow> game" where
  "scrambleStep rnd rc s =
     (case rc of (r, c) \<Rightarrow>
        if \<not> cell (grid s) r c \<and> rnd r c then
          (let s1 = s\<lparr>grid := set_cell (grid s) r c True\<rparr>
           in s1\<lparr>aliens := aliens s1 @ [upgradeAlien s1 r c]\<rparr>)
        else s)"

definition mirrorStep :: "nat \<times> nat \<Rightarrow> game \<Rightarrow> game" where
  "mirrorStep rc s =
     (case rc of (r, c) \<Rightarrow>
        (let mirrorCol = gridCols s - 1 - c in
         if cell (grid s) r c \<and> \<not> cell (grid s) r mirrorCol then
           (let s1 = s\<lparr>grid := set_cell (grid s) r mirrorCol True\<rparr>
            in s1\<lparr>aliens := aliens s1 @ [upgradeAlien s1 r mirrorCol]\<rparr>)
         else if \<not> cell (grid s) r c \<and> cell (grid s) r mirrorCol then
           (let s1 = s\<lparr>grid := set_cell (grid s) r c True\<rparr>
            in s1\<lparr>aliens := aliens s1 @ [upgradeAlien s1 r c]\<rparr>)
         else s))"

definition applyUpgrade :: "(nat \<Rightarrow> nat \<Rightarrow> bool) \<Rightarrow> card_id \<Rightarrow> game \<Rightarrow> game" where
  "applyUpgrade rnd picked s =
     (case picked of
        AlienArmor \<Rightarrow>
          s\<lparr>aliens := map (\<lambda>a. if a_hp a = None \<or> a_hp a = Some 0
                                 then a\<lparr>a_hp := Some 2\<rparr> else a) (aliens s)\<rparr>
      | ExtraRow \<Rightarrow>
          (if gridRows s = 3
           then s\<lparr>gridRows := 4, grid := grid s @ [replicate (gridCols s) False]\<rparr>
           else s)
      | TempoPush \<Rightarrow>
          (let s1 = s\<lparr>bpm := bpm s + 20\<rparr>;
               s2 = s1\<lparr>stepInterval := stepIntervalOf (bpm s1)\<rparr>
           in s2\<lparr>defender := (defender s2)\<lparr>d_speed := js_round (5 * speedScale (bpm s2))\<rparr>\<rparr>)
      | Scramble \<Rightarrow>
          fold (scrambleStep rnd) (cellsRowMajor (gridRows s) (gridCols s)) s
      | MirrorBeat \<Rightarrow>
          fold mirrorStep (cellsRowMajor (gridRows s) ((gridCols s + 1) div 2)) s
      | HpBoost \<Rightarrow> s\<lparr>defenderMaxHP := defenderMaxHP s + 15, defenderHP := defenderHP s + 15\<rparr>
      | SpeedBoost \<Rightarrow> s\<lparr>defender := (defender s)\<lparr>d_speed := d_speed (defender s) + 1\<rparr>\<rparr>
      | _ \<Rightarrow> s)"

definition selectCard :: "(nat \<Rightarrow> nat \<Rightarrow> bool) \<Rightarrow> int \<Rightarrow> game \<Rightarrow> game" where
  "selectCard rnd index s =
     (if index < 0 \<or> index \<ge> int (length (currentCardChoices s)) then s
      else
        (let picked = currentCardChoices s ! nat index;
             s1 = applyUpgrade rnd picked s;
             s2 = s1\<lparr>upgrades := insert picked (upgrades s1)\<rparr>;
             s3 = s2\<lparr>currentWave := currentWave s2 + 1\<rparr>;
             s4 = s3\<lparr>alienBudgetMax := min 24 (8 + (currentWave s3 - 1) * 2)\<rparr>;
             s5 = s4\<lparr>alienBudget := alienBudgetMax s4\<rparr>;
             s6 = s5\<lparr>aiAdapting := False,
                     aiColumnHeatmap := replicate (gridCols s5) (Some 0)\<rparr>;
             s7 = updateAIForWave s6;
             s8 = s7\<lparr>isBossWave := (currentWave s7 mod 5 = 0)\<rparr>;
             s9 = s8\<lparr>wavePhase := Prepare, phaseTimer := 0, currentCardChoices := []\<rparr>
         in respawnAliens s9))"

definition restartGame :: "game \<Rightarrow> game" where
  "restartGame s =
     (let s1 = s\<lparr>currentWave := 1, currentLoop := 1, defenderHP := defenderMaxHP s,
                 score := 0, wavePhase := Playing, gameOver := False, isBossWave := False,
                 upgrades := {}, currentCardChoices := [], fireZones := [],
                 alienBudget := 8, alienBudgetMax := 8, evolvedCells := {},
                 aiAdapting := False, aiColumnHeatmap := replicate (gridCols s) (Some 0),
                 defender := (defender s)\<lparr>d_x := canvas_width / 2\<rparr>,
                 alienProjectiles := [],
                 activePowerUps := \<lparr>shield = 0, speedBoost = 0, rapidFire = 0, spreadShot = 0\<rparr>\<rparr>
      in respawnAliens (updateAIForWave s1))"

text \<open>
  \<open>waveComplete\<close>; \<open>choices\<close> stands for the cards that \<open>generateCardChoices\<close> draws
  with \<open>Math.random\<close>.
\<close>

definition waveComplete :: "card_id list \<Rightarrow> game \<Rightarrow> game" where
  "waveComplete choices s =
     (let waveBonus = currentWave s * 500;
          bossBonus = (if isBossWave s then currentWave s * 1000 else 0);
          s1 = s\<lparr>score := score s + (waveBonus + bossBonus)\<rparr>;
          s2 = s1\<lparr>defenderMaxHP := 60 + (currentWave s1 * 15)\<rparr>;
          s3 = s2\<lparr>defenderHP := defenderMaxHP s2\<rparr>
      in s3\<lparr>currentCardChoices := choices, wavePhase := Cardpick, phaseTimer := 0,
            alienProjectiles := []\<rparr>)"

definition gameLost :: "game \<Rightarrow> game" where
  "gameLost s = s\<lparr>wavePhase := Gameover, gameOver := True\<rparr>"

text \<open>
  The state the constructor builds when the URL carries no pattern.  The constructor
  fills \<open>aiColumnHeatmap\<close> before \<open>gridCols\<close> is assigned, so the array starts with
  the single entry 0.
\<close>

definition newGame :: game where
  "newGame =
     \<lparr> currentWave = 1, currentLoop = 1, loopsPerWave = 8, wavePhase = Playing,
       phaseTimer = 0, alienBudget = 8, alienBudgetMax = 8, budgetShakeTimer = 0,
       aiColumnHeatmap = [Some 0], aiAdapting = False, evolvedCells = {},
       isBossWave = False, upgrades = {}, currentCardChoices = [], fireZones = [],
       defenderMaxHP = 60, defenderHP = 60, bossShield = 0, bossShieldTimer = 0,
       bossMissileTimer = 0, shotDelay = 900, aiAccuracy = 5 / 10, aiActive = True,
       aiShotsPerTurn = 1,
       defender = \<lparr>d_x = canvas_width / 2, d_y = canvas_height - 50, d_width = 40,
                    d_height = 30, d_speed = 5\<rparr>,
       gridCols = 16, gridRows = 3, score = 0, grid = emptyGrid 3 16, aliens = [],
       alienProjectiles = [], currentStep = 0, lastStepTime = 0, bpm = 120,
       stepInterval = stepIntervalOf 120,
       activePowerUps = \<lparr>shield = 0, speedBoost = 0, rapidFire = 0, spreadShot = 0\<rparr>,
       gameOver = False, isPaused = False, freezeFrames = 0, touchLeft = False,
       touchRight = False, soundLog = [] \<rparr>"

subsection \<open>Sequences of user operations\<close>

datatype op =
    ToggleGridCell nat nat
  | LoadPreset "int list list"
  | ClearGrid
  | SelectCard "nat \<Rightarrow> nat \<Rightarrow> bool" int
  | RestartGame

text \<open>An exception thrown inside an event handler leaves the game as it was.\<close>

fun applyOp :: "op \<Rightarrow> game \<Rightarrow> game" where
  "applyOp (ToggleGridCell r c) s = (case toggleGridCell r c s of Inl e \<Rightarrow> s | Inr s' \<Rightarrow> s')"
| "applyOp (LoadPreset pattern) s = loadPreset pattern s"
| "applyOp ClearGrid s = clearGrid s"
| "applyOp (SelectCard rnd index) s = selectCard rnd index s"
| "applyOp RestartGame s = restartGame s"

definition run :: "op list \<Rightarrow> game \<Rightarrow> game" where
  "run ops s = fold applyOp ops s"


subsection \<open>Invariants and tables used by the properties\<close>

text \<open>What the editing operations keep: the budget is not negative, and the cost of the
  placed cells plus the budget left does not exceed the cap.\<close>

definition budgetInv :: "game \<Rightarrow> bool" where
  "budgetInv s = (0 \<le> alienBudget s \<and> placedCost (grid s) + alienBudget s \<le> alienBudgetMax s)"

text \<open>What every operation keeps: the budget left lies between 0 and the cap.\<close>

definition budgetRange :: "game \<Rightarrow> bool" where
  "budgetRange s = (1 \<le> currentWave s \<and> 0 \<le> alienBudget s \<and> alienBudget s \<le> alienBudgetMax s)"

text \<open>The wave table in the words of the specification: shot delay, accuracy, shots
  per turn and maximal hit points of the defender, by wave number.\<close>

definition waveTable :: "int \<Rightarrow> int \<times> rat \<times> int \<times> int" where
  "waveTable w =
     (if w = 1 then (1500, 3 / 10, 1, 60)
      else if w = 2 then (1200, 4 / 10, 1, 60 + (w - 1) * 15)
      else if w = 3 then (900, 5 / 10, 1, 60 + (w - 1) * 15)
      else if w = 4 then (600, 65 / 100, 1, 60 + (w - 1) * 15)
      else if w mod 5 = 0 then (400, 8 / 10, 2, 60 + (w - 1) * 15)
      else if w \<ge> 10 then (200, 9 / 10, 3, 60 + (w - 1) * 15)
      else (350, 85 / 100, 2, 60 + (w - 1) * 15))"

text \<open>Three placements that use up the budget of wave 1 (3 + 3 + 2).\<close>

definition budgetDemo :: game where
  "budgetDemo = run [ToggleGridCell 0 0, ToggleGridCell 0 1, ToggleGridCell 1 0] newGame"


text \<open>One placed hi-hat cell and a restart: the budget is back at the cap.\<close>

definition refundClamped :: game where
  "refundClamped = run [ToggleGridCell 2 0, RestartGame] newGame"

text \<open>The card pick after the first wave, with three cards on offer.\<close>

definition cardpickDemo :: game where
  "cardpickDemo = waveComplete [NapalmRounds, ExtraRow, TempoPush] budgetDemo"

subsection \<open>Weapons\<close>

text \<open>The number of alive aliens in the column of the alien that fires.\<close>

definition aliensOnStepOf :: "game \<Rightarrow> alien \<Rightarrow> nat" where
  "aliensOnStepOf s a = length (filter (\<lambda>b. a_col b = a_col a \<and> a_alive b) (aliens s))"

definition colAlive :: "game \<Rightarrow> nat \<Rightarrow> bool" where
  "colAlive s c = list_ex (\<lambda>b. a_col b = c \<and> a_alive b) (aliens s)"

definition isSalvo :: "game \<Rightarrow> alien \<Rightarrow> bool" where
  "isSalvo s a = (aliensOnStepOf s a \<ge> 3)"

definition isSyncopated :: "alien \<Rightarrow> bool" where
  "isSyncopated a = (a_col a mod 2 = 1)"

definition hasSilence :: "game \<Rightarrow> alien \<Rightarrow> bool" where
  "hasSilence s a =
     (if a_col a \<ge> 2
      then (let col1Empty = \<not> colAlive s (a_col a - 1);
                col2Empty = \<not> colAlive s (a_col a - 2)
            in col1Empty \<and> col2Empty)
      else False)"

definition damageMultiplier :: "game \<Rightarrow> alien \<Rightarrow> rat" where
  "damageMultiplier s a =
     (let m0 = 1;
          m1 = (if isSalvo s a then m0 * (3 / 2) else m0);
          m2 = (if isSyncopated a then m1 * (13 / 10) else m1);
          m3 = (if hasSilence s a then m2 * 2 else m2)
      in m3)"

text \<open>
  The three statements every weapon branch applies to its tier damage: the boss boost,
  the strategy multipliers and the bonus of an evolved alien.
\<close>

definition finishDamage :: "game \<Rightarrow> alien \<Rightarrow> int \<Rightarrow> int" where
  "finishDamage s a d0 =
     (let d1 = (if isBossWave s then \<lfloor>of_int d0 * (3 / 2 :: rat)\<rfloor> else d0);
          d2 = \<lfloor>of_int d1 * damageMultiplier s a\<rfloor>
      in if a_evolved a then d2 + 2 else d2)"

definition speedMultiplier :: "game \<Rightarrow> rat" where
  "speedMultiplier s = (if DoubleTime \<in> upgrades s then 3 / 2 else 1)"

definition bossSpeed :: "game \<Rightarrow> rat" where
  "bossSpeed s = (if isBossWave s then 13 / 10 else 1)"

definition burstBullets :: "game \<Rightarrow> alien \<Rightarrow> int \<Rightarrow> projectile list" where
  "burstBullets s a bulletDamage =
     map (\<lambda>i. \<lparr> p_type = Burst, p_x = a_x a + (of_nat i - 1) * 8,
                p_y = a_y a - (of_nat i * 6),
                p_speed = (4 + (of_nat i * (1 / 2))) * speedMultiplier s * bossSpeed s,
                p_damage = bulletDamage, p_row = a_row a,
                p_aliensOnStep = aliensOnStepOf s a \<rparr>) [0..<3]"

text \<open>The projectiles that \<open>alienShoot\<close> pushes for an alien; a row above 3 has no weapon.\<close>

definition weapon :: "game \<Rightarrow> alien \<Rightarrow> projectile list" where
  "weapon s a =
     (let aliensOnStep = aliensOnStepOf s a in
      if a_row a = 0 then
        (let b0 = 12;
             b1 = (if aliensOnStep = 2 then 15 else b0);
             b2 = (if aliensOnStep = 3 then 18 else b1)
         in [\<lparr> p_type = Cannon, p_x = a_x a, p_y = a_y a,
               p_speed = 2 * speedMultiplier s * bossSpeed s,
               p_damage = finishDamage s a b2, p_row = a_row a,
               p_aliensOnStep = aliensOnStep \<rparr>])
      else if a_row a = 1 then
        (let b0 = 3;
             b1 = (if aliensOnStep \<ge> 2 then 4 else b0)
         in burstBullets s a (finishDamage s a b1))
      else if a_row a = 2 then
        (let b0 = 6;
             b1 = (if aliensOnStep = 2 then 8 else b0);
             b2 = (if aliensOnStep = 3 then 10 else b1)
         in [\<lparr> p_type = Homing, p_x = a_x a, p_y = a_y a,
               p_speed = 3 * speedMultiplier s * bossSpeed s,
               p_damage = finishDamage s a b2, p_row = a_row a,
               p_aliensOnStep = aliensOnStep \<rparr>])
      else if a_row a = 3 then
        (let b0 = 3;
             b1 = (if aliensOnStep \<ge> 2 then 4 else b0)
         in burstBullets s a (finishDamage s a b1))
      else [])"

definition alienShoot :: "alien \<Rightarrow> game \<Rightarrow> game" where
  "alienShoot a s = s\<lparr>alienProjectiles := alienProjectiles s @ weapon s a\<rparr>"

text \<open>
  The hit of a projectile that no shield absorbs: hit points and score, with the
  crossfire bonus.
\<close>

definition takeDamage :: "projectile \<Rightarrow> game \<Rightarrow> game" where
  "takeDamage proj s =
     (let s1 = s\<lparr>defenderHP := defenderHP s - p_damage proj\<rparr>;
          s2 = s1\<lparr>score := score s1 + p_damage proj\<rparr>
      in if p_aliensOnStep proj = 2 then s2\<lparr>score := score s2 + 10\<rparr>
         else if p_aliensOnStep proj = 3 then s2\<lparr>score := score s2 + 30\<rparr>
         else s2)"

text \<open>The damage tiers in the words of the specification, by row and by the number of
  aliens alive in the column.\<close>

definition tierDamage :: "nat \<Rightarrow> nat \<Rightarrow> int" where
  "tierDamage r n =
     (if r = 0 then (if n = 3 then 18 else if n = 2 then 15 else 12)
      else if r = 1 \<or> r = 3 then (if n \<ge> 2 then 4 else 3)
      else if r = 2 then (if n = 3 then 10 else if n = 2 then 8 else 6)
      else 0)"

definition crossfireBonus :: "nat \<Rightarrow> int" where
  "crossfireBonus n = (if n = 2 then 10 else if n = 3 then 30 else 0)"

text \<open>A full column in wave 1: bass, snare and hi-hat on step 0.\<close>

definition salvoDemo :: game where
  "salvoDemo = run [ToggleGridCell 0 0, ToggleGridCell 1 0, ToggleGridCell 2 0] newGame"

text \<open>Bass and snare on step 0.\<close>

definition pairDemo :: game where
  "pairDemo = run [ToggleGridCell 0 0, ToggleGridCell 1 0] newGame"

subsection \<open>The sequencer\<close>

text \<open>\<open>this.aiColumnHeatmap[col] += 1\<close>: past the end of the array the sum is \<open>NaN\<close>.\<close>

definition heatIncr :: "int option list \<Rightarrow> nat \<Rightarrow> int option list" where
  "heatIncr h c =
     (if c < length h then h[c := map_option (\<lambda>v. v + 1) (h ! c)]
      else h @ replicate (c - length h) None @ [None])"

text \<open>The body of \<open>if (this.currentStep === 0)\<close>: a loop of the pattern is complete.\<close>

definition loopCompleted :: "game \<Rightarrow> game" where
  "loopCompleted s =
     (let s1 = s\<lparr>currentLoop := currentLoop s + 1\<rparr>;
          s2 = (if currentLoop s1 = 4 \<and> \<not> aiAdapting s1
                then s1\<lparr>aiAdapting := True,
                        aiColumnHeatmap :=
                          fold (\<lambda>a h. if a_alive a then heatIncr h (a_col a) else h)
                            (aliens s1) (aiColumnHeatmap s1)\<rparr>
                else s1);
          s3 = (if currentLoop s2 = 6
                then s2\<lparr>aiAccuracy := min (95 / 100) (aiAccuracy s2 + 1 / 10)\<rparr>
                else s2)
      in if currentLoop s3 > loopsPerWave s3 then
           (let s4 = s3\<lparr>evolvedCells := evolvedCells s3 \<union>
                          set (map (\<lambda>a. (a_row a, a_col a)) (filter a_alive (aliens s3)))\<rparr>
            in if defenderHP s4 > 0 then gameLost s4 else s4)
         else respawnAliens s3)"

text \<open>One round of the loop over the rows of the current step.\<close>

definition stepRow :: "nat \<Rightarrow> game \<Rightarrow> game" where
  "stepRow r s =
     (if cell (grid s) r (currentStep s) then
        (case find (\<lambda>a. a_row a = r \<and> a_col a = currentStep s \<and> a_alive a) (aliens s) of
           Some a \<Rightarrow>
             (let s1 = s\<lparr>soundLog := soundLog s @ [r]\<rparr>;
                  s2 = alienShoot a s1
              in if VolleyFire \<in> upgrades s2 then alienShoot a s2 else s2)
         | None \<Rightarrow> s)
      else s)"

text \<open>The block \<open>Update drum sequence\<close> of \<open>update\<close>; \<open>now\<close> is \<open>performance.now()\<close>.\<close>

definition sequencer :: "rat \<Rightarrow> game \<Rightarrow> game" where
  "sequencer now s =
     (if now - lastStepTime s \<ge> stepInterval s then
        (let s1 = s\<lparr>lastStepTime := now\<rparr>;
             s2 = s1\<lparr>currentStep := (currentStep s1 + 1) mod gridCols s1\<rparr>;
             s3 = (if currentStep s2 = 0 then loopCompleted s2 else s2)
         in fold stepRow [0..<gridRows s3] s3)
      else s)"

text \<open>The handler of the tempo slider.\<close>

definition setBpm :: "int \<Rightarrow> game \<Rightarrow> game" where
  "setBpm newBpm s =
     (let s1 = s\<lparr>bpm := newBpm\<rparr>;
          s2 = s1\<lparr>stepInterval := stepIntervalOf (bpm s1)\<rparr>
      in s2\<lparr>defender := (defender s2)\<lparr>d_speed := js_round (5 * speedScale (bpm s2))\<rparr>\<rparr>)"

text \<open>Whether row \<open>r\<close> sounds and fires on the current step of \<open>s\<close>.\<close>

definition firing :: "game \<Rightarrow> nat \<Rightarrow> bool" where
  "firing s r =
     (cell (grid s) r (currentStep s) \<and>
      list_ex (\<lambda>a. a_row a = r \<and> a_col a = currentStep s \<and> a_alive a) (aliens s))"

text \<open>The projectiles that row \<open>r\<close> adds on the current step.\<close>

definition shots :: "game \<Rightarrow> nat \<Rightarrow> projectile list" where
  "shots s r =
     (case find (\<lambda>a. a_row a = r \<and> a_col a = currentStep s \<and> a_alive a) (aliens s) of
        Some a \<Rightarrow> weapon s a @ (if VolleyFire \<in> upgrades s then weapon s a else [])
      | None \<Rightarrow> [])"

text \<open>The full column with the sequencer about to wrap from step 15 to step 0.\<close>

definition stepDemo :: game where
  "stepDemo = salvoDemo\<lparr>currentStep := 15\<rparr>"

subsection \<open>The defender AI\<close>

definition zoneWidth :: rat where "zoneWidth = canvas_width / 16"

text \<open>
  The loop \<open>for (z = Math.max(0, zone - 1); z <= Math.min(15, zone + 1); z++)\<close> that adds
  \<open>amount\<close> to the zone and half of it to the neighbours.
\<close>

definition spreadThreat :: "int \<Rightarrow> rat \<Rightarrow> rat list \<Rightarrow> rat list" where
  "spreadThreat zone amount threatMap =
     fold (\<lambda>z t. t[nat z := t ! nat z + amount * (if z = zone then 1 else 1 / 2)])
       [max 0 (zone - 1) .. min 15 (zone + 1)] threatMap"

text \<open>One projectile of the scan.  A speed of 0 makes the time to impact infinite or
  \<open>NaN\<close> in the source, and the test fails there as it does here.\<close>

definition projThreat :: "game \<Rightarrow> projectile \<Rightarrow> rat list \<Rightarrow> rat list" where
  "projThreat s proj threatMap =
     (let timeToImpact = (d_y (defender s) - p_y proj) / p_speed proj in
      if timeToImpact > 0 \<and> timeToImpact < 50 then
        (let zone = \<lfloor>p_x proj / zoneWidth\<rfloor>;
             urgency = 1 / (timeToImpact + 1)
         in spreadThreat zone urgency threatMap)
      else threatMap)"

text \<open>\<open>this.aiColumnHeatmap[col]\<close>; \<open>None\<close> stands for \<open>undefined\<close> and \<open>NaN\<close>.\<close>

definition heatAt :: "int option list \<Rightarrow> nat \<Rightarrow> int option" where
  "heatAt h c = (if c < length h then h ! c else None)"

text \<open>One column of the adaptation loop.\<close>

definition adaptThreat :: "game \<Rightarrow> nat \<Rightarrow> rat list \<Rightarrow> rat list" where
  "adaptThreat s c threatMap =
     (case heatAt (aiColumnHeatmap s) c of
        None \<Rightarrow> threatMap
      | Some h \<Rightarrow>
          if h > 0 then
            (let zone = \<lfloor>(of_nat c * cellWidth + cellWidth / 2) / zoneWidth\<rfloor>;
                 predictiveThreat = of_int h * (3 / 10)
             in spreadThreat zone predictiveThreat threatMap)
          else threatMap)"

definition threatMapOf :: "game \<Rightarrow> rat list" where
  "threatMapOf s =
     (let t0 = replicate 16 0;
          t1 = fold (projThreat s) (alienProjectiles s) t0
      in if aiAdapting s then fold (adaptThreat s) [0..<gridCols s] t1 else t1)"

definition defenderCenter :: "game \<Rightarrow> rat" where
  "defenderCenter s = d_x (defender s) + d_width (defender s) / 2"

definition currentZoneOf :: "game \<Rightarrow> int" where
  "currentZoneOf s = \<lfloor>defenderCenter s / zoneWidth\<rfloor>"

text \<open>\<open>threatMap[currentZone] || 0\<close>.\<close>

definition threatAt :: "rat list \<Rightarrow> int \<Rightarrow> rat" where
  "threatAt threatMap z = (if 0 \<le> z \<and> z < int (length threatMap) then threatMap ! nat z else 0)"

definition zoneScore :: "rat list \<Rightarrow> int \<Rightarrow> int \<Rightarrow> rat" where
  "zoneScore threatMap currentZone z =
     (let s0 = threatMap ! nat z * 3;
          s1 = s0 + of_int \<bar>z - currentZone\<bar> * (1 / 10);
          s2 = (if z \<le> 1 \<or> z \<ge> 14 then s1 + 1 / 2 else s1)
      in s2 + of_int \<bar>z - 8\<bar> * (2 / 100))"

text \<open>One round of the search; the best score starts as \<open>Infinity\<close>, here \<open>None\<close>.\<close>

definition bestStep :: "rat list \<Rightarrow> int \<Rightarrow> int \<Rightarrow> int \<times> rat option \<Rightarrow> int \<times> rat option" where
  "bestStep threatMap currentZone z best =
     (let sc = zoneScore threatMap currentZone z in
      if (case snd best of None \<Rightarrow> True | Some bestScore \<Rightarrow> sc < bestScore)
      then (z, Some sc) else best)"

definition bestZoneOf :: "rat list \<Rightarrow> int \<Rightarrow> int" where
  "bestZoneOf threatMap currentZone =
     fst (fold (bestStep threatMap currentZone)
            [max 0 (currentZone - 4) .. min 15 (currentZone + 4)] (currentZone, None))"

text \<open>One round of the search for the nearest alive alien.\<close>

definition nearestStep ::
  "rat \<Rightarrow> alien \<Rightarrow> alien option \<times> rat option \<Rightarrow> alien option \<times> rat option" where
  "nearestStep center a acc =
     (if \<not> a_alive a then acc
      else
        (let distance = \<bar>a_x a - center\<bar> in
         if (case snd acc of None \<Rightarrow> True | Some minDistance \<Rightarrow> distance < minDistance)
         then (Some a, Some distance) else acc))"

text \<open>The value of \<open>moveDir\<close> when \<open>updateAI\<close> reaches \<open>moveDefender\<close>.\<close>

definition moveDirOf :: "game \<Rightarrow> int" where
  "moveDirOf s =
     (let center = defenderCenter s;
          canvasCenter = canvas_width / 2;
          atLeftWall = (d_x (defender s) \<le> 5);
          atRightWall = (d_x (defender s) \<ge> canvas_width - d_width (defender s) - 5);
          threatMap = threatMapOf s;
          currentZone = currentZoneOf s;
          currentThreat = threatAt threatMap currentZone;
          drift = (if \<bar>center - canvasCenter\<bar> > 100
                   then (if canvasCenter > center then 1 else - 1) else 0)
      in if currentThreat > 3 / 10 then
           (let bestZone = bestZoneOf threatMap currentZone in
            if bestZone < currentZone then - 1
            else if bestZone > currentZone then 1
            else if atLeftWall then 1
            else if atRightWall then - 1
            else 0)
         else
           (case fold (nearestStep center) (aliens s) (None, None) of
              (Some a, Some minDistance) \<Rightarrow>
                if minDistance > 10 then (if a_x a > center then 1 else - 1) else drift
            | _ \<Rightarrow> drift))"

definition moveDefender :: "int \<Rightarrow> game \<Rightarrow> game" where
  "moveDefender direction s =
     (let newX = d_x (defender s) + of_int direction * of_int (d_speed (defender s)) in
      if newX \<ge> 0 \<and> newX \<le> canvas_width - d_width (defender s)
      then s\<lparr>defender := (defender s)\<lparr>d_x := newX\<rparr>\<rparr> else s)"

text \<open>The five missiles of the boss barrage.\<close>

definition bossMissiles :: "game \<Rightarrow> projectile list" where
  "bossMissiles s =
     map (\<lambda>i. \<lparr> p_type = Homing, p_x = (canvas_width / 6) * (of_nat i + 1 / 2),
                p_y = gridYOffset + of_nat (gridRows s) * cellHeight, p_speed = 3,
                p_damage = 15, p_row = 0, p_aliensOnStep = 1 \<rparr>) [0..<5]"

definition bossAI :: "game \<Rightarrow> game" where
  "bossAI s =
     (if isBossWave s \<and> defenderHP s > 0 then
        (let s1 = (if bossShieldTimer s \<noteq> 0 then
                     (let t = s\<lparr>bossShieldTimer := bossShieldTimer s - 1\<rparr> in
                      if bossShieldTimer t = 0
                      then t\<lparr>bossShield := 3, bossShieldTimer := 20 * 60\<rparr> else t)
                   else s)
         in if bossMissileTimer s1 \<noteq> 0 then
              (let t = s1\<lparr>bossMissileTimer := bossMissileTimer s1 - 1\<rparr> in
               if bossMissileTimer t = 0
               then t\<lparr>alienProjectiles := alienProjectiles t @ bossMissiles t,
                      bossMissileTimer := 30 * 60\<rparr>
               else t)
            else s1)
      else s)"

text \<open>
  \<open>updateAI\<close>.  The shots of the defender and its look for power-ups write nothing that
  the model holds: bullets and falling power-ups are not part of it, and the direction
  towards a power-up is assigned after \<open>moveDefender\<close> has been called.
\<close>

definition updateAI :: "game \<Rightarrow> game" where
  "updateAI s =
     (if \<not> aiActive s \<or> isPaused s \<or> wavePhase s \<noteq> Playing then s
      else
        (let moveDir = moveDirOf s;
             s1 = (if moveDir \<noteq> 0 then moveDefender moveDir s else s)
         in bossAI s1))"








subsection \<open>One frame of the game\<close>

datatype powerUpKind = Repair | ShieldUp | Speed | Rapidfire | Spread

text \<open>
  What a frame takes from outside the model: the clock, the cards that
  \<open>generateCardChoices\<close> draws if the wave is won in this frame, and the outcome of the
  two collision loops whose objects the model does not hold: the indices of the aliens
  that the bullets of the defender hit, in the order of the hits, and the kinds of the
  falling power-ups that the defender collects.
\<close>

record env =
  e_now :: rat
  e_choices :: "card_id list"
  e_bulletHits :: "nat list"
  e_pickups :: "powerUpKind list"

text \<open>One round of the loop over the fire zones, which runs from the last zone down.\<close>

definition fireZoneStep :: "nat \<Rightarrow> game \<Rightarrow> game" where
  "fireZoneStep i s =
     (if \<not> i < length (fireZones s) then s
      else
        (let zone0 = fireZones s ! i;
             zone1 = zone0\<lparr>z_life := z_life zone0 - 1\<rparr>;
             dx = z_x zone1 - (d_x (defender s) + d_width (defender s) / 2);
             dy = z_y zone1 - (d_y (defender s) + d_height (defender s) / 2);
             inZone = (dx * dx + dy * dy < 20 * 20);
             zone2 = (if inZone then zone1\<lparr>z_damageTimer := z_damageTimer zone1 + 1\<rparr> else zone1);
             burns = (inZone \<and> z_damageTimer zone2 \<ge> 30);
             s1 = (if burns then
                     (if shield (activePowerUps s) > 0
                      then s\<lparr>activePowerUps :=
                               (activePowerUps s)\<lparr>shield := shield (activePowerUps s) - 1\<rparr>\<rparr>
                      else s\<lparr>defenderHP := defenderHP s - 2, score := score s + 2\<rparr>)
                   else s);
             zone3 = (if burns then zone2\<lparr>z_damageTimer := 0\<rparr> else zone2)
         in if z_life zone3 \<le> 0
            then s1\<lparr>fireZones := take i (fireZones s1) @ drop (Suc i) (fireZones s1)\<rparr>
            else s1\<lparr>fireZones := (fireZones s1)[i := zone3]\<rparr>))"

fun fireZoneLoop :: "nat \<Rightarrow> game \<Rightarrow> game" where
  "fireZoneLoop 0 s = s"
| "fireZoneLoop (Suc i) s = fireZoneLoop i (fireZoneStep i s)"

text \<open>A bullet of the defender hits the alien at index \<open>j\<close>.\<close>

definition bulletHit :: "nat \<Rightarrow> game \<Rightarrow> game" where
  "bulletHit j s =
     (if j < length (aliens s) \<and> a_alive (aliens s ! j) then
        (let a0 = aliens s ! j;
             hp0 = (case a_hp a0 of None \<Rightarrow> 1 | Some h \<Rightarrow> if h = 0 then 1 else h);
             a1 = a0\<lparr>a_hp := Some (hp0 - 1)\<rparr>;
             a2 = (if hp0 - 1 \<le> 0 then
                     (let k = a1\<lparr>a_alive := False\<rparr> in
                      if QuickRespawn \<in> upgrades s then k\<lparr>a_respawnIn := Some 8\<rparr> else k)
                   else a1)
         in s\<lparr>aliens := (aliens s)[j := a2]\<rparr>)
      else s)"

definition collectPowerUp :: "powerUpKind \<Rightarrow> game \<Rightarrow> game" where
  "collectPowerUp k s =
     (case k of
        Repair \<Rightarrow> s\<lparr>defenderHP := min (defenderHP s + 10) (defenderMaxHP s)\<rparr>
      | ShieldUp \<Rightarrow>
          s\<lparr>activePowerUps := (activePowerUps s)\<lparr>shield := shield (activePowerUps s) + 2\<rparr>\<rparr>
      | Speed \<Rightarrow>
          s\<lparr>activePowerUps := (activePowerUps s)\<lparr>speedBoost := 600\<rparr>,
            defender := (defender s)\<lparr>d_speed := js_round (5 * speedScale (bpm s)) * 2\<rparr>\<rparr>
      | Rapidfire \<Rightarrow> s\<lparr>activePowerUps := (activePowerUps s)\<lparr>rapidFire := 600\<rparr>\<rparr>
      | Spread \<Rightarrow> s\<lparr>activePowerUps := (activePowerUps s)\<lparr>spreadShot := 600\<rparr>\<rparr>)"

text \<open>The projectile after its move of this frame.\<close>

definition movedProjectile :: "game \<Rightarrow> projectile \<Rightarrow> projectile" where
  "movedProjectile s proj =
     (let p1 = (if p_type proj = Homing then
                  (let dx = (d_x (defender s) + d_width (defender s) / 2) - p_x proj;
                       trackingSpeed = (if HomingBoost \<in> upgrades s then 12 / 10 else 5 / 10)
                   in proj\<lparr>p_x := p_x proj + sgn dx * min \<bar>dx\<bar> trackingSpeed\<rparr>)
                else proj)
      in p1\<lparr>p_y := p_y p1 + p_speed p1\<rparr>)"

definition directHit :: "game \<Rightarrow> projectile \<Rightarrow> bool" where
  "directHit s proj =
     (p_y proj \<ge> d_y (defender s) \<and> p_y proj \<le> d_y (defender s) + d_height (defender s) \<and>
      p_x proj \<ge> d_x (defender s) \<and> p_x proj \<le> d_x (defender s) + d_width (defender s))"

definition inBlast :: "game \<Rightarrow> projectile \<Rightarrow> bool" where
  "inBlast s proj =
     (let dx = p_x proj - (d_x (defender s) + d_width (defender s) / 2);
          dy = p_y proj - (d_y (defender s) + d_height (defender s) / 2)
      in dx * dx + dy * dy < 30 * 30)"

definition splice :: "nat \<Rightarrow> 'a list \<Rightarrow> 'a list" where
  "splice i xs = take i xs @ drop (Suc i) xs"

text \<open>The hit of the projectile at index \<open>i\<close> that no shield absorbs, up to the
  check of the win condition.\<close>

definition defenderHit :: "card_id list \<Rightarrow> nat \<Rightarrow> projectile \<Rightarrow> game \<Rightarrow> game" where
  "defenderHit choices i proj s =
     (let s1 = (takeDamage proj s)\<lparr>freezeFrames := 2\<rparr>;
          s2 = (if NapalmRounds \<in> upgrades s1 \<and> p_type proj = Cannon
                then s1\<lparr>fireZones := fireZones s1 @
                       [\<lparr>z_x = p_x proj, z_y = p_y proj, z_life = 180, z_damageTimer = 0\<rparr>]\<rparr>
                else s1);
          s3 = (if ChainLightning \<in> upgrades s2 \<and> p_type proj = Burst
                then s2\<lparr>alienProjectiles := alienProjectiles s2 @
                       [\<lparr>p_type = Burst, p_x = p_x proj, p_y = p_y proj, p_speed = 4,
                         p_damage = 3, p_row = p_row proj, p_aliensOnStep = 1\<rparr>]\<rparr>
                else s2);
          s4 = s3\<lparr>alienProjectiles := splice i (alienProjectiles s3)\<rparr>
      in if defenderHP s4 \<le> 0
         then waveComplete choices (s4\<lparr>defenderHP := 0\<rparr>)
         else s4)"

text \<open>What becomes of the moved projectile at index \<open>i\<close>: absorbed by a shield, a hit,
  gone below the canvas, or still in flight.\<close>

definition resolveProjectile ::
  "card_id list \<Rightarrow> nat \<Rightarrow> projectile \<Rightarrow> bool \<Rightarrow> game \<Rightarrow> game" where
  "resolveProjectile choices i proj hitDefender s =
     (if hitDefender then
        (if isBossWave s \<and> bossShield s > 0 then
           s\<lparr>bossShield := bossShield s - 1, alienProjectiles := splice i (alienProjectiles s)\<rparr>
         else if shield (activePowerUps s) > 0 then
           s\<lparr>activePowerUps := (activePowerUps s)\<lparr>shield := shield (activePowerUps s) - 1\<rparr>,
             alienProjectiles := splice i (alienProjectiles s)\<rparr>
         else defenderHit choices i proj s)
      else if p_y proj > canvas_height then
        s\<lparr>alienProjectiles := splice i (alienProjectiles s)\<rparr>
      else s)"

text \<open>
  One round of the loop over the alien projectiles, which runs from the last index
  down; an index past the end of the array, as after \<open>waveComplete\<close> has emptied it,
  is skipped.  A cannon shot that misses the defender but ends within 30 pixels of its
  centre hits with half its damage.
\<close>

definition projStep :: "card_id list \<Rightarrow> nat \<Rightarrow> game \<Rightarrow> game" where
  "projStep choices i s =
     (if \<not> i < length (alienProjectiles s) then s
      else
        (let p1 = movedProjectile s (alienProjectiles s ! i);
             hit0 = directHit s p1;
             blast = (p_type p1 = Cannon \<and> \<not> hit0 \<and> inBlast s p1);
             proj = (if blast then p1\<lparr>p_damage := p_damage p1 div 2\<rparr> else p1)
         in resolveProjectile choices i proj (hit0 \<or> blast)
              (s\<lparr>alienProjectiles := (alienProjectiles s)[i := proj]\<rparr>)))"

fun projLoop :: "card_id list \<Rightarrow> nat \<Rightarrow> game \<Rightarrow> game" where
  "projLoop choices 0 s = s"
| "projLoop choices (Suc i) s = projLoop choices i (projStep choices i s)"

definition powerUpTimers :: "game \<Rightarrow> game" where
  "powerUpTimers s =
     (let s1 = (if speedBoost (activePowerUps s) > 0 then
                  (let t = s\<lparr>activePowerUps :=
                             (activePowerUps s)\<lparr>speedBoost := speedBoost (activePowerUps s) - 1\<rparr>\<rparr>
                   in if speedBoost (activePowerUps t) = 0
                      then t\<lparr>defender := (defender t)\<lparr>d_speed := js_round (5 * speedScale (bpm t))\<rparr>\<rparr>
                      else t)
                else s);
          s2 = (if rapidFire (activePowerUps s1) > 0
                then s1\<lparr>activePowerUps :=
                        (activePowerUps s1)\<lparr>rapidFire := rapidFire (activePowerUps s1) - 1\<rparr>\<rparr>
                else s1)
      in if spreadShot (activePowerUps s2) > 0
         then s2\<lparr>activePowerUps :=
                 (activePowerUps s2)\<lparr>spreadShot := spreadShot (activePowerUps s2) - 1\<rparr>\<rparr>
         else s2)"

text \<open>The countdown of the \<open>quickRespawn\<close> upgrade.\<close>

definition respawnTick :: "alien \<Rightarrow> alien" where
  "respawnTick a =
     (case a_respawnIn a of
        None \<Rightarrow> a
      | Some n \<Rightarrow>
          if a_alive a then a
          else if n - 1 \<le> 0 then
            a\<lparr>a_alive := True,
              a_hp := Some (case a_maxHp a of None \<Rightarrow> 1 | Some m \<Rightarrow> if m = 0 then 1 else m),
              a_respawnIn := None\<rparr>
          else a\<lparr>a_respawnIn := Some (n - 1)\<rparr>)"

definition quickRespawn :: "game \<Rightarrow> game" where
  "quickRespawn s =
     (if QuickRespawn \<in> upgrades s then s\<lparr>aliens := map respawnTick (aliens s)\<rparr> else s)"

text \<open>
  The body of \<open>update\<close> in the playing phase.  The bullets of the defender and the
  falling power-ups enter through \<open>env\<close>.
\<close>

definition playingFrame :: "env \<Rightarrow> game \<Rightarrow> game" where
  "playingFrame e s =
     (let s1 = (if touchLeft s then moveDefender (- 1) s else s);
          s2 = (if touchRight s1 then moveDefender 1 s1 else s1);
          s3 = fireZoneLoop (length (fireZones s2)) s2;
          s4 = (if aiActive s3 then updateAI s3 else s3);
          s5 = fold bulletHit (e_bulletHits e) s4;
          s6 = projLoop (e_choices e) (length (alienProjectiles s5)) s5;
          s7 = fold collectPowerUp (e_pickups e) s6;
          s8 = powerUpTimers s7;
          s9 = sequencer (e_now e) s8
      in quickRespawn s9)"

definition update :: "env \<Rightarrow> game \<Rightarrow> game" where
  "update e s =
     (if isPaused s then s
      else if freezeFrames s > 0 then s\<lparr>freezeFrames := freezeFrames s - 1\<rparr>
      else
        (case wavePhase s of
           Prepare \<Rightarrow>
             (let s1 = s\<lparr>phaseTimer := phaseTimer s + 1\<rparr> in
              if phaseTimer s1 \<ge> 180
              then s1\<lparr>wavePhase := Playing, phaseTimer := 0, currentLoop := 1,
                      currentStep := 0, lastStepTime := e_now e\<rparr>
              else s1)
         | Cardpick \<Rightarrow> s
         | Complete \<Rightarrow>
             (let s1 = s\<lparr>phaseTimer := phaseTimer s + 1\<rparr> in
              if phaseTimer s1 \<ge> 120 then
                (let s2 = s1\<lparr>currentWave := currentWave s1 + 1\<rparr>;
                     s3 = updateAIForWave s2;
                     s4 = s3\<lparr>isBossWave := (currentWave s3 mod 5 = 0)\<rparr>;
                     s5 = s4\<lparr>wavePhase := Prepare, phaseTimer := 0\<rparr>
                 in respawnAliens s5)
              else s1)
         | Gameover \<Rightarrow> s
         | Playing \<Rightarrow> playingFrame e s))"

text \<open>The edges of the cycle of phases in the words of the specification:
  playing, prepare, then cardpick or complete, and playing again.\<close>

definition specEdge :: "phase \<Rightarrow> phase \<Rightarrow> bool" where
  "specEdge p q =
     ((p = Playing \<and> q = Prepare) \<or> (p = Prepare \<and> (q = Cardpick \<or> q = Complete)) \<or>
      ((p = Cardpick \<or> p = Complete) \<and> q = Playing))"

text \<open>The edges that the source takes: playing, cardpick, prepare and playing again,
  with complete leading to prepare.\<close>

definition codeEdge :: "phase \<Rightarrow> phase \<Rightarrow> bool" where
  "codeEdge p q =
     ((p = Playing \<and> q = Cardpick) \<or> (p = Cardpick \<and> q = Prepare) \<or>
      (p = Complete \<and> q = Prepare) \<or> (p = Prepare \<and> q = Playing))"

definition quietEnv :: env where
  "quietEnv = \<lparr>e_now = 0, e_choices = [NapalmRounds, ExtraRow, TempoPush],
               e_bulletHits = [], e_pickups = []\<rparr>"

text \<open>A defender with 5 hit points under the bass cannon of column 8, whose shot is
  one frame above it.\<close>

definition killDemo :: game where
  "killDemo =
     (run [ToggleGridCell 0 8, ToggleGridCell 1 8] newGame)
       \<lparr>defenderHP := 5,
        alienProjectiles :=
          [\<lparr>p_type = Cannon, p_x = 425, p_y = 548, p_speed = 2, p_damage = 15, p_row = 0,
            p_aliensOnStep = 2\<rparr>]\<rparr>"

text \<open>The same shot on the last step of the last loop of the wave, in a frame in
  which the sequencer is due.\<close>

definition lastStepDemo :: game where
  "lastStepDemo = killDemo\<lparr>currentLoop := 8, currentStep := 15\<rparr>"

definition dueEnv :: env where
  "dueEnv = quietEnv\<lparr>e_now := 125\<rparr>"

text \<open>The card pick that follows the frame in which \<open>killDemo\<close> is won.\<close>

definition wonDemo :: game where
  "wonDemo = update quietEnv killDemo"

text \<open>
  The second wave after the card \<open>napalmRounds\<close> has been picked: the defender is down
  to 2 hit points and stands on a fire zone that is due to burn.
\<close>

definition burnDemo :: game where
  "burnDemo =
     (selectCard (\<lambda>r c. False) 0 wonDemo)
       \<lparr>wavePhase := Playing, freezeFrames := 0, defenderHP := 2,
        fireZones := [\<lparr>z_x = 415, z_y = 565, z_life = 100, z_damageTimer = 29\<rparr>]\<rparr>"

text \<open>
  The tempo and the size of the grid as the sequencer needs them: the step interval
  follows the tempo, the grid has 16 columns and 3 or 4 rows.
\<close>

definition seqInv :: "game \<Rightarrow> bool" where
  "seqInv s =
     (stepInterval s = stepIntervalOf (bpm s) \<and> gridCols s = 16 \<and>
      (gridRows s = 3 \<or> gridRows s = 4))"

text \<open>The fields that \<open>seqInv\<close> reads.\<close>

definition tempo :: "game \<Rightarrow> rat \<times> int \<times> nat \<times> nat" where
  "tempo s = (stepInterval s, bpm s, gridCols s, gridRows s)"

text \<open>The fields that decide whether the sequencer steps, and to which step.\<close>

definition clock :: "game \<Rightarrow> nat \<times> rat \<times> rat \<times> nat" where
  "clock s = (currentStep s, lastStepTime s, stepInterval s, gridCols s)"

section \<open>Properties\<close>

lemma costOf_pos: "0 < costOf r"
  by (simp add: costOf_def alienCosts_def nth_Cons split: nat.splits)

lemma rowCount_nonneg: "0 \<le> rowCount xs"
  by (simp add: rowCount_def)

lemma placedFrom_nonneg: "0 \<le> placedFrom k g"
proof (induction g arbitrary: k)
  case Nil
  show ?case by simp
next
  case (Cons xs g)
  have "0 \<le> costOf k * rowCount xs"
    using costOf_pos [of k] rowCount_nonneg [of xs] by simp
  with Cons [of "Suc k"] show ?case by simp
qed

lemma placedCost_nonneg: "0 \<le> placedCost g"
  by (simp add: placedCost_def placedFrom_nonneg)







lemma js_get_js_set_same: "js_get (js_set xs c v) c = v"
  by (auto simp: js_get_def js_set_def nth_append)

lemma cell_set_cell_same: "r < length g \<Longrightarrow> cell (set_cell g r c v) r c = v"
  by (simp add: cell_def set_cell_def js_get_js_set_same)

lemma length_set_cell: "length (set_cell g r c v) = length g"
  by (simp add: set_cell_def)









lemma budgetInv_range: "budgetInv s \<Longrightarrow> 1 \<le> currentWave s \<Longrightarrow> budgetRange s"
  using placedCost_nonneg [of "grid s"] by (simp add: budgetInv_def budgetRange_def)






lemma fold_scrambleStep_fields:
  "currentWave (fold (scrambleStep rnd) cs s) = currentWave s \<and>
   currentCardChoices (fold (scrambleStep rnd) cs s) = currentCardChoices s"
  by (induction cs arbitrary: s) (auto simp: scrambleStep_def Let_def)

lemma fold_mirrorStep_fields:
  "currentWave (fold mirrorStep cs s) = currentWave s \<and>
   currentCardChoices (fold mirrorStep cs s) = currentCardChoices s"
  by (induction cs arbitrary: s) (auto simp: mirrorStep_def Let_def)

lemma applyUpgrade_currentWave: "currentWave (applyUpgrade rnd k s) = currentWave s"
  by (cases k) (simp_all add: applyUpgrade_def Let_def fold_scrambleStep_fields fold_mirrorStep_fields)

lemma updateAIForWave_budget:
  "alienBudget (updateAIForWave s) = alienBudget s \<and>
   alienBudgetMax (updateAIForWave s) = alienBudgetMax s \<and>
   currentWave (updateAIForWave s) = currentWave s"
  by (simp add: updateAIForWave_def)

lemma respawnAliens_budget:
  "alienBudget (respawnAliens s) = alienBudget s \<and>
   alienBudgetMax (respawnAliens s) = alienBudgetMax s \<and>
   currentWave (respawnAliens s) = currentWave s"
  by (simp add: respawnAliens_def)

lemma selectCard_budget:
  assumes "0 \<le> index" and "index < int (length (currentCardChoices s))"
  shows "currentWave (selectCard rnd index s) = currentWave s + 1 \<and>
         alienBudgetMax (selectCard rnd index s) = min 24 (8 + (currentWave s + 1 - 1) * 2) \<and>
         alienBudget (selectCard rnd index s) = min 24 (8 + (currentWave s + 1 - 1) * 2)"
  using assms
  by (simp add: selectCard_def Let_def respawnAliens_budget updateAIForWave_budget
        applyUpgrade_currentWave)








subsection \<open>The budget economy\<close>




text \<open>
  Claim C7, as amended.  Removing a placed cell \<open>(r, c)\<close> with \<open>toggleGridCell\<close> sets
  the budget to the smaller of \<open>alienBudget + cost[r]\<close> and \<open>alienBudgetMax\<close>: the
  refund is exactly \<open>cost[r]\<close> when that does not pass the cap.  Placing an empty
  cell that the budget affords, in a state whose budget is within the cap, and removing
  it again returns the budget to its value before.
\<close>

theorem toggle_refund:
  "(r < length (grid s) \<and> js_get (grid s ! r) c \<longrightarrow>
      (\<exists>s'. toggleGridCell r c s = Inr s' \<and>
            alienBudget s' = min (alienBudget s + costOf r) (alienBudgetMax s) \<and>
            (alienBudget s + costOf r \<le> alienBudgetMax s \<longrightarrow>
               alienBudget s' = alienBudget s + costOf r))) \<and>
   (r < length (grid s) \<and> \<not> js_get (grid s ! r) c \<and> costOf r \<le> alienBudget s \<and>
    alienBudget s \<le> alienBudgetMax s \<longrightarrow>
      (\<exists>s1 s2. toggleGridCell r c s = Inr s1 \<and> toggleGridCell r c s1 = Inr s2 \<and>
            alienBudget s1 = alienBudget s - costOf r \<and>
            alienBudget s2 = alienBudget s1 + costOf r \<and>
            alienBudget s2 = alienBudget s))"
proof (intro conjI impI)
  assume "r < length (grid s) \<and> js_get (grid s ! r) c"
  then show "\<exists>s'. toggleGridCell r c s = Inr s' \<and>
            alienBudget s' = min (alienBudget s + costOf r) (alienBudgetMax s) \<and>
            (alienBudget s + costOf r \<le> alienBudgetMax s \<longrightarrow>
               alienBudget s' = alienBudget s + costOf r)"
    by (auto simp: toggleGridCell_def Let_def)
next
  assume a: "r < length (grid s) \<and> \<not> js_get (grid s ! r) c \<and> costOf r \<le> alienBudget s \<and>
    alienBudget s \<le> alienBudgetMax s"
  define s1 where "s1 = s\<lparr>grid := set_cell (grid s) r c True,
                          aliens := aliens s @ [placedAlien (s\<lparr>grid := set_cell (grid s) r c True\<rparr>) r c],
                          alienBudget := alienBudget s - costOf r\<rparr>"
  from a have t1: "toggleGridCell r c s = Inr s1"
    by (simp add: toggleGridCell_def Let_def s1_def)
  have g1: "r < length (grid s1)" "js_get (grid s1 ! r) c"
    using a by (simp_all add: s1_def set_cell_def js_get_js_set_same)
  have b1: "alienBudget s1 = alienBudget s - costOf r" "alienBudgetMax s1 = alienBudgetMax s"
    by (simp_all add: s1_def)
  from g1 obtain s2 where t2: "toggleGridCell r c s1 = Inr s2"
    and b2: "alienBudget s2 = min (alienBudget s1 + costOf r) (alienBudgetMax s1)"
    by (auto simp: toggleGridCell_def Let_def)
  from b1 b2 a have "alienBudget s2 = alienBudget s" by simp
  with t1 t2 b1 show "\<exists>s1 s2. toggleGridCell r c s = Inr s1 \<and> toggleGridCell r c s1 = Inr s2 \<and>
            alienBudget s1 = alienBudget s - costOf r \<and>
            alienBudget s2 = alienBudget s1 + costOf r \<and>
            alienBudget s2 = alienBudget s"
    by simp
qed

text \<open>
  Claim C7 as stated fails: after a restart the budget is at the cap of 8 while a hi-hat
  cell (cost 1) is still placed; removing the cell leaves the budget at 8, not 9.
\<close>

theorem toggle_refund_counterexample:
  "js_get (grid refundClamped ! 2) 0 \<and> alienBudget refundClamped = 8 \<and> costOf 2 = 1 \<and>
   (case toggleGridCell 2 0 refundClamped of
      Inl e \<Rightarrow> False
    | Inr s' \<Rightarrow> alienBudget s' = 8 \<and> alienBudget s' \<noteq> alienBudget refundClamped + costOf 2)"
  by code_simp

theorem toggle_refund_witness:
  "(2 < length (grid budgetDemo) \<and> \<not> js_get (grid budgetDemo ! 2) 5) \<and>
   (0 < length (grid budgetDemo) \<and> js_get (grid budgetDemo ! 0) 1 \<and>
    (\<exists>s'. toggleGridCell 0 1 budgetDemo = Inr s' \<and> alienBudget s' = 3)) \<and>
   (2 < length (grid newGame) \<and> \<not> js_get (grid newGame ! 2) 5 \<and>
    costOf 2 \<le> alienBudget newGame \<and> alienBudget newGame \<le> alienBudgetMax newGame \<and>
    (\<exists>s1 s2. toggleGridCell 2 5 newGame = Inr s1 \<and> toggleGridCell 2 5 s1 = Inr s2 \<and>
       alienBudget s1 = 7 \<and> alienBudget s2 = 8))"
proof -
  have h1: "0 < length (grid budgetDemo) \<and> js_get (grid budgetDemo ! 0) 1"
    by code_simp
  have v1: "alienBudget budgetDemo = 0" "alienBudgetMax budgetDemo = 8" "costOf 0 = 3"
    by code_simp+
  have h2: "2 < length (grid newGame) \<and> \<not> js_get (grid newGame ! 2) 5 \<and>
    costOf 2 \<le> alienBudget newGame \<and> alienBudget newGame \<le> alienBudgetMax newGame"
    by code_simp
  have v2: "alienBudget newGame = 8" "costOf 2 = 1"
    by code_simp+
  have h3: "2 < length (grid budgetDemo) \<and> \<not> js_get (grid budgetDemo ! 2) 5"
    by code_simp
  from toggle_refund [of 0 budgetDemo 1] h1 v1
  have c1: "\<exists>s'. toggleGridCell 0 1 budgetDemo = Inr s' \<and> alienBudget s' = 3"
    by auto
  from toggle_refund [of 2 newGame 5] h2 v2
  have c2: "\<exists>s1 s2. toggleGridCell 2 5 newGame = Inr s1 \<and> toggleGridCell 2 5 s1 = Inr s2 \<and>
       alienBudget s1 = 7 \<and> alienBudget s2 = 8"
    by auto
  from h1 h2 h3 c1 c2 show ?thesis by blast
qed

text \<open>
  Claim C10.  When the cell \<open>(r, c)\<close> is empty and the budget left is below
  \<open>cost[r]\<close>, \<open>toggleGridCell\<close> changes nothing but \<open>budgetShakeTimer\<close>, which it
  sets to 20: grid, aliens and budget are as before.
\<close>

theorem rejected_placement_atomic:
  assumes "r < length (grid s)" and "\<not> js_get (grid s ! r) c" and "alienBudget s < costOf r"
  shows "\<exists>s'. toggleGridCell r c s = Inr s' \<and> s' = s\<lparr>budgetShakeTimer := 20\<rparr> \<and>
           grid s' = grid s \<and> aliens s' = aliens s \<and> alienBudget s' = alienBudget s"
  using assms by (simp add: toggleGridCell_def Let_def)

theorem rejected_placement_atomic_witness:
  "2 < length (grid budgetDemo) \<and> \<not> js_get (grid budgetDemo ! 2) 5 \<and>
   alienBudget budgetDemo < costOf 2 \<and>
   (\<exists>s'. toggleGridCell 2 5 budgetDemo = Inr s' \<and> s' = budgetDemo\<lparr>budgetShakeTimer := 20\<rparr> \<and>
      grid s' = grid budgetDemo \<and> aliens s' = aliens budgetDemo \<and>
      alienBudget s' = alienBudget budgetDemo)"
proof -
  have h: "2 < length (grid budgetDemo)" "\<not> js_get (grid budgetDemo ! 2) 5"
    "alienBudget budgetDemo < costOf 2"
    by code_simp+
  from rejected_placement_atomic [OF h] h show ?thesis by blast
qed

text \<open>
  Claim C8.  When \<open>selectCard\<close> is given the index of one of the cards on offer, the
  wave number goes up by one, \<open>alienBudgetMax\<close> becomes
  \<open>min 24 (8 + (wave - 1) * 2)\<close> for the new wave, and \<open>alienBudget\<close> is reset to
  exactly that cap.
\<close>

theorem selectCard_budget_reset:
  assumes "0 \<le> index" and "index < int (length (currentCardChoices s))"
  shows "currentWave (selectCard rnd index s) = currentWave s + 1 \<and>
         alienBudgetMax (selectCard rnd index s) =
           min 24 (8 + (currentWave (selectCard rnd index s) - 1) * 2) \<and>
         alienBudget (selectCard rnd index s) = alienBudgetMax (selectCard rnd index s)"
  using selectCard_budget [OF assms, of rnd] by simp

theorem selectCard_budget_reset_witness:
  "(0::int) \<le> 1 \<and> 1 < int (length (currentCardChoices cardpickDemo)) \<and>
   alienBudget cardpickDemo = 0 \<and>
   currentWave (selectCard (\<lambda>r c. False) 1 cardpickDemo) = 2 \<and>
   alienBudgetMax (selectCard (\<lambda>r c. False) 1 cardpickDemo) = 10 \<and>
   alienBudget (selectCard (\<lambda>r c. False) 1 cardpickDemo) = 10"
proof -
  have h: "(0::int) \<le> 1" "1 < int (length (currentCardChoices cardpickDemo))"
    by code_simp+
  have v: "currentWave cardpickDemo = 1" "alienBudget cardpickDemo = 0"
    by code_simp+
  from selectCard_budget_reset [OF h, of "\<lambda>r c. False"] h v show ?thesis by simp
qed

subsection \<open>The wave table\<close>

text \<open>
  Claim C3.  For every wave number from 1 on, \<open>updateAIForWave\<close> sets the shot delay,
  the accuracy, the shots per turn and the maximal hit points of the defender to the
  entries of the table of the specification, which depend on the wave number only.
\<close>

theorem updateAIForWave_table:
  assumes "1 \<le> currentWave s"
  shows "(shotDelay (updateAIForWave s), aiAccuracy (updateAIForWave s),
          aiShotsPerTurn (updateAIForWave s), defenderMaxHP (updateAIForWave s))
         = waveTable (currentWave s)"
  using assms by (simp add: updateAIForWave_def waveTable_def)

theorem updateAIForWave_table_witness:
  "1 \<le> currentWave (newGame\<lparr>currentWave := 7\<rparr>) \<and>
   (shotDelay (updateAIForWave (newGame\<lparr>currentWave := 7\<rparr>)),
    aiAccuracy (updateAIForWave (newGame\<lparr>currentWave := 7\<rparr>)),
    aiShotsPerTurn (updateAIForWave (newGame\<lparr>currentWave := 7\<rparr>)),
    defenderMaxHP (updateAIForWave (newGame\<lparr>currentWave := 7\<rparr>))) = (350, 85 / 100, 2, 150)"
proof -
  have h: "1 \<le> currentWave (newGame\<lparr>currentWave := 7\<rparr>)" by simp
  from updateAIForWave_table [OF h] h show ?thesis by (simp add: waveTable_def)
qed

lemma damageMultiplier_frame:
  "aliens t = aliens s \<Longrightarrow> damageMultiplier t a = damageMultiplier s a"
  by (simp add: damageMultiplier_def isSalvo_def hasSilence_def colAlive_def aliensOnStepOf_def)

lemma finishDamage_frame:
  "aliens t = aliens s \<Longrightarrow> isBossWave t = isBossWave s \<Longrightarrow>
   finishDamage t a d = finishDamage s a d"
  by (simp add: finishDamage_def damageMultiplier_frame [of t s])

lemma burstBullets_frame:
  "aliens t = aliens s \<Longrightarrow> isBossWave t = isBossWave s \<Longrightarrow> upgrades t = upgrades s \<Longrightarrow>
   burstBullets t a d = burstBullets s a d"
  by (simp add: burstBullets_def aliensOnStepOf_def speedMultiplier_def bossSpeed_def)

lemma weapon_frame:
  assumes "aliens t = aliens s" and "isBossWave t = isBossWave s" and "upgrades t = upgrades s"
  shows "weapon t a = weapon s a"
proof -
  have n: "aliensOnStepOf t a = aliensOnStepOf s a"
    using assms by (simp add: aliensOnStepOf_def)
  have f: "finishDamage t a = finishDamage s a"
    using assms by (intro ext finishDamage_frame)
  have b: "burstBullets t a = burstBullets s a"
    using assms by (intro ext burstBullets_frame)
  have v: "speedMultiplier t = speedMultiplier s" "bossSpeed t = bossSpeed s"
    using assms by (simp_all add: speedMultiplier_def bossSpeed_def)
  show ?thesis
    unfolding weapon_def n f b v ..
qed

lemma shots_frame:
  assumes "aliens t = aliens s" and "isBossWave t = isBossWave s" and "upgrades t = upgrades s"
    and "currentStep t = currentStep s"
  shows "shots t r = shots s r"
proof -
  have w: "weapon t = weapon s"
    using assms by (intro ext weapon_frame)
  show ?thesis
    unfolding shots_def assms w ..
qed

lemma firing_frame:
  "aliens t = aliens s \<Longrightarrow> grid t = grid s \<Longrightarrow> currentStep t = currentStep s \<Longrightarrow>
   firing t r = firing s r"
  by (simp add: firing_def)

lemma firing_find:
  "firing s r \<longleftrightarrow>
   cell (grid s) r (currentStep s) \<and>
   find (\<lambda>a. a_row a = r \<and> a_col a = currentStep s \<and> a_alive a) (aliens s) \<noteq> None"
  by (auto simp: firing_def list_ex_iff find_None_iff)

lemma stepRow_eq:
  "stepRow r s =
     (if firing s r
      then s\<lparr>soundLog := soundLog s @ [r], alienProjectiles := alienProjectiles s @ shots s r\<rparr>
      else s)"
proof (cases "find (\<lambda>a. a_row a = r \<and> a_col a = currentStep s \<and> a_alive a) (aliens s)")
  case None
  then show ?thesis by (simp add: stepRow_def firing_find)
next
  case (Some a)
  have w: "weapon (s\<lparr>soundLog := soundLog s @ [r]\<rparr>) a = weapon s a"
    by (rule weapon_frame) simp_all
  have w2: "weapon (s\<lparr>soundLog := soundLog s @ [r],
      alienProjectiles := alienProjectiles s @ weapon s a\<rparr>) a = weapon s a"
    by (rule weapon_frame) simp_all
  from Some show ?thesis
    by (simp add: stepRow_def firing_find shots_def alienShoot_def Let_def w w2)
qed

lemma fold_stepRow_eq:
  "fold stepRow rs s =
     s\<lparr>soundLog := soundLog s @ filter (firing s) rs,
       alienProjectiles := alienProjectiles s @ concat (map (shots s) (filter (firing s) rs))\<rparr>"
proof (induction rs arbitrary: s)
  case Nil
  show ?case by simp
next
  case (Cons r rs)
  let ?t = "stepRow r s"
  have f: "firing ?t = firing s"
    by (rule ext, rule firing_frame) (simp_all add: stepRow_eq)
  have sh: "shots ?t = shots s"
    by (rule ext, rule shots_frame) (simp_all add: stepRow_eq)
  show ?case
    by (simp add: Cons.IH f sh) (simp add: stepRow_eq)
qed

lemma weapon_row: "p \<in> set (weapon s a) \<Longrightarrow> p_row p = a_row a"
  by (auto simp: weapon_def burstBullets_def Let_def split: if_splits)

lemma weapon_nonempty: "a_row a < 4 \<Longrightarrow> weapon s a \<noteq> []"
proof -
  assume "a_row a < 4"
  then have "a_row a = 0 \<or> a_row a = 1 \<or> a_row a = 2 \<or> a_row a = 3" by arith
  then show ?thesis
    by (auto simp: weapon_def burstBullets_def Let_def)
qed

lemma find_holds: "find P xs = Some a \<Longrightarrow> P a"
  by (auto simp: find_Some_iff)

lemma shots_row:
  assumes p: "p \<in> set (shots s r)"
  shows "p_row p = r"
proof (cases "find (\<lambda>a. a_row a = r \<and> a_col a = currentStep s \<and> a_alive a) (aliens s)")
  case None
  with p show ?thesis by (simp add: shots_def)
next
  case (Some a)
  with p have "p \<in> set (weapon s a)"
    by (auto simp: shots_def split: if_splits)
  then have "p_row p = a_row a" by (rule weapon_row)
  with find_holds [OF Some] show ?thesis by simp
qed

lemma shots_nonempty: "firing s r \<Longrightarrow> r < 4 \<Longrightarrow> shots s r \<noteq> []"
proof -
  assume a: "firing s r" "r < 4"
  then obtain a where f: "find (\<lambda>a. a_row a = r \<and> a_col a = currentStep s \<and> a_alive a) (aliens s) = Some a"
    by (auto simp: firing_find)
  from find_holds [OF f] a have "a_row a < 4" by simp
  then have "weapon s a \<noteq> []" by (rule weapon_nonempty)
  with f show ?thesis by (simp add: shots_def)
qed

lemma weapon_damage:
  "p \<in> set (weapon s a) \<Longrightarrow>
   p_damage p = finishDamage s a (tierDamage (a_row a) (aliensOnStepOf s a)) \<and>
   p_aliensOnStep p = aliensOnStepOf s a"
  by (auto simp: weapon_def burstBullets_def tierDamage_def Let_def split: if_splits)

lemma loopCompleted_fields:
  "currentStep (loopCompleted s) = currentStep s \<and> gridRows (loopCompleted s) = gridRows s \<and>
   grid (loopCompleted s) = grid s \<and> alienProjectiles (loopCompleted s) = alienProjectiles s \<and>
   soundLog (loopCompleted s) = soundLog s \<and> lastStepTime (loopCompleted s) = lastStepTime s"
  by (simp add: loopCompleted_def Let_def gameLost_def respawnAliens_def)

lemma new_shots_rows:
  assumes "n \<le> 4"
  shows "(\<exists>p \<in> set (concat (map (shots s) (filter (firing s) [0..<n]))). p_row p = r) \<longleftrightarrow>
         r < n \<and> firing s r"
proof
  assume "\<exists>p \<in> set (concat (map (shots s) (filter (firing s) [0..<n]))). p_row p = r"
  then obtain p r' where "r' < n" "firing s r'" "p \<in> set (shots s r')" "p_row p = r"
    by auto
  moreover from this have "r' = r" using shots_row by blast
  ultimately show "r < n \<and> firing s r" by simp
next
  assume a: "r < n \<and> firing s r"
  with assms have "shots s r \<noteq> []" by (simp add: shots_nonempty)
  then obtain p where p: "p \<in> set (shots s r)" by (cases "shots s r") auto
  with a shots_row [OF p] show "\<exists>p \<in> set (concat (map (shots s) (filter (firing s) [0..<n]))). p_row p = r"
    by auto
qed

lemma sequencer_block:
  assumes "stepInterval s = stepIntervalOf (bpm s)" and "gridCols s = 16" and "gridRows s \<le> 4"
  shows "(now - lastStepTime s \<ge> (60 / of_int (bpm s)) * 1000 / 4 \<longrightarrow>
            currentStep (sequencer now s) = (currentStep s + 1) mod 16 \<and>
            lastStepTime (sequencer now s) = now \<and>
            soundLog (sequencer now s) =
              soundLog s @ filter (firing (sequencer now s)) [0..<gridRows s] \<and>
            (\<exists>new. alienProjectiles (sequencer now s) = alienProjectiles s @ new \<and>
               (\<forall>r. (\<exists>p \<in> set new. p_row p = r) \<longleftrightarrow>
                    r < gridRows s \<and> firing (sequencer now s) r))) \<and>
         (\<not> now - lastStepTime s \<ge> (60 / of_int (bpm s)) * 1000 / 4 \<longrightarrow> sequencer now s = s)"
proof (intro conjI impI)
  assume due: "now - lastStepTime s \<ge> (60 / of_int (bpm s)) * 1000 / 4"
  define s2 where "s2 = s\<lparr>lastStepTime := now, currentStep := (currentStep s + 1) mod gridCols s\<rparr>"
  define s3 where "s3 = (if currentStep s2 = 0 then loopCompleted s2 else s2)"
  have seq: "sequencer now s = fold stepRow [0..<gridRows s3] s3"
    using due assms(1) by (simp add: sequencer_def stepIntervalOf_def Let_def s3_def s2_def)
  have f3: "currentStep s3 = (currentStep s + 1) mod 16" "gridRows s3 = gridRows s"
    "alienProjectiles s3 = alienProjectiles s" "soundLog s3 = soundLog s"
    "lastStepTime s3 = now"
    using assms(2) by (simp_all add: s3_def s2_def loopCompleted_fields)
  have fr: "firing (sequencer now s) = firing s3"
    by (rule ext, rule firing_frame) (simp_all add: seq fold_stepRow_eq)
  show "currentStep (sequencer now s) = (currentStep s + 1) mod 16"
    by (simp add: seq fold_stepRow_eq f3)
  show "lastStepTime (sequencer now s) = now"
    by (simp add: seq fold_stepRow_eq f3)
  show "soundLog (sequencer now s) =
          soundLog s @ filter (firing (sequencer now s)) [0..<gridRows s]"
    unfolding fr by (simp add: seq fold_stepRow_eq f3)
  have "alienProjectiles (sequencer now s) =
          alienProjectiles s @ concat (map (shots s3) (filter (firing s3) [0..<gridRows s]))"
    by (simp add: seq fold_stepRow_eq f3)
  moreover have "\<forall>r. (\<exists>p \<in> set (concat (map (shots s3) (filter (firing s3) [0..<gridRows s]))).
        p_row p = r) \<longleftrightarrow> r < gridRows s \<and> firing (sequencer now s) r"
    unfolding fr using new_shots_rows [OF assms(3), of s3] by blast
  ultimately show "\<exists>new. alienProjectiles (sequencer now s) = alienProjectiles s @ new \<and>
               (\<forall>r. (\<exists>p \<in> set new. p_row p = r) \<longleftrightarrow>
                    r < gridRows s \<and> firing (sequencer now s) r)"
    by blast
next
  assume "\<not> now - lastStepTime s \<ge> (60 / of_int (bpm s)) * 1000 / 4"
  with assms(1) show "sequencer now s = s"
    by (simp add: sequencer_def stepIntervalOf_def)
qed

subsection \<open>Weapons and crossfire\<close>

text \<open>
  Claim C2, as amended.  Every projectile an alien fires records the number \<open>n\<close> of
  alive aliens in its column, and its damage starts from the tier of the specification
  (row 0: 12, 15 for \<open>n = 2\<close>, 18 for \<open>n = 3\<close>; rows 1 and 3: 3, 4 for \<open>n \<ge> 2\<close>;
  row 2: 6, 8 for \<open>n = 2\<close>, 10 for \<open>n = 3\<close>).  The tier is multiplied by 1.5 and
  rounded down on a boss wave, then multiplied by the product of 1.5 if \<open>n \<ge> 3\<close>
  (salvo), 1.3 in an odd column (syncopation) and 2 after two silent columns, and rounded
  down; an evolved alien adds 2.  Without boss wave, evolution, salvo, syncopation and
  silence the damage is the tier itself.  A hit that no shield absorbs adds to the score
  the damage of the projectile, plus 10 when \<open>n = 2\<close> and plus 30 when \<open>n = 3\<close>.
\<close>

theorem weapon_damage_tiers:
  "(p \<in> set (weapon s a) \<longrightarrow>
      p_aliensOnStep p = aliensOnStepOf s a \<and>
      p_damage p =
        \<lfloor>of_int (if isBossWave s
                 then \<lfloor>of_int (tierDamage (a_row a) (aliensOnStepOf s a)) * (3 / 2 :: rat)\<rfloor>
                 else tierDamage (a_row a) (aliensOnStepOf s a)) *
          ((if 3 \<le> aliensOnStepOf s a then 3 / 2 else 1) *
           (if odd (a_col a) then 13 / 10 else 1) *
           (if hasSilence s a then 2 else (1 :: rat)))\<rfloor> +
        (if a_evolved a then 2 else 0) \<and>
      (\<not> isBossWave s \<and> \<not> a_evolved a \<and> aliensOnStepOf s a < 3 \<and> even (a_col a) \<and>
       \<not> hasSilence s a \<longrightarrow>
         p_damage p = tierDamage (a_row a) (aliensOnStepOf s a))) \<and>
   score (takeDamage p s) = score s + p_damage p + crossfireBonus (p_aliensOnStep p)"
proof -
  have m: "damageMultiplier s a =
      (if 3 \<le> aliensOnStepOf s a then 3 / 2 else 1) *
      (if odd (a_col a) then 13 / 10 else 1) * (if hasSilence s a then 2 else 1)"
    by (simp add: damageMultiplier_def isSalvo_def isSyncopated_def Let_def odd_iff_mod_2_eq_one)
  have sc: "score (takeDamage p s) = score s + p_damage p + crossfireBonus (p_aliensOnStep p)"
    by (simp add: takeDamage_def crossfireBonus_def Let_def)
  have "p_aliensOnStep p = aliensOnStepOf s a \<and>
        p_damage p = finishDamage s a (tierDamage (a_row a) (aliensOnStepOf s a))"
    if "p \<in> set (weapon s a)"
    using weapon_damage [OF that] by simp
  then show ?thesis
    unfolding finishDamage_def Let_def m using sc by auto
qed

text \<open>
  Claim C2 as stated fails: with three aliens alive in column 0, the bass cannon of row 0
  deals \<open>\<lfloor>18 * 1.5\<rfloor> = 27\<close>, not the flat 18 of the tier, because three aliens in a
  column always form a salvo, which multiplies the damage.
\<close>

theorem weapon_damage_tiers_counterexample:
  "a_row (aliens salvoDemo ! 0) = 0 \<and> aliensOnStepOf salvoDemo (aliens salvoDemo ! 0) = 3 \<and>
   tierDamage 0 3 = 18 \<and>
   map p_damage (weapon salvoDemo (aliens salvoDemo ! 0)) = [27]"
  by code_simp

theorem weapon_damage_tiers_witness:
  "weapon pairDemo (aliens pairDemo ! 0) \<noteq> [] \<and>
   hd (weapon pairDemo (aliens pairDemo ! 0)) \<in> set (weapon pairDemo (aliens pairDemo ! 0)) \<and>
   \<not> isBossWave pairDemo \<and> \<not> a_evolved (aliens pairDemo ! 0) \<and>
   aliensOnStepOf pairDemo (aliens pairDemo ! 0) < 3 \<and> even (a_col (aliens pairDemo ! 0)) \<and>
   \<not> hasSilence pairDemo (aliens pairDemo ! 0) \<and>
   p_damage (hd (weapon pairDemo (aliens pairDemo ! 0))) = 15 \<and>
   score (takeDamage (hd (weapon pairDemo (aliens pairDemo ! 0))) pairDemo) = 25"
proof -
  let ?a = "aliens pairDemo ! 0"
  let ?p = "hd (weapon pairDemo ?a)"
  have ne: "weapon pairDemo ?a \<noteq> []" by code_simp
  then have h: "?p \<in> set (weapon pairDemo ?a)" by simp
  have g: "\<not> isBossWave pairDemo" "\<not> a_evolved ?a" "aliensOnStepOf pairDemo ?a < 3"
    "even (a_col ?a)" "\<not> hasSilence pairDemo ?a"
    by code_simp+
  have v: "tierDamage (a_row ?a) (aliensOnStepOf pairDemo ?a) = 15"
    "aliensOnStepOf pairDemo ?a = 2" "score pairDemo = 0" "crossfireBonus 2 = 10"
    by code_simp+
  from weapon_damage_tiers [of ?p pairDemo ?a] h g v
  have "p_damage ?p = 15 \<and> score (takeDamage ?p pairDemo) = 25"
    by simp
  with ne h g show ?thesis by blast
qed












subsection \<open>The threat-zone dodge\<close>




lemma moveDefender_wavePhase: "wavePhase (moveDefender d s) = wavePhase s"
  by (simp add: moveDefender_def Let_def)

lemma fireZoneStep_wavePhase: "wavePhase (fireZoneStep i s) = wavePhase s"
  by (simp add: fireZoneStep_def Let_def)

lemma fireZoneLoop_wavePhase: "wavePhase (fireZoneLoop n s) = wavePhase s"
  by (induction n arbitrary: s) (simp_all add: fireZoneStep_wavePhase)

lemma updateAI_wavePhase: "wavePhase (updateAI s) = wavePhase s"
  by (simp add: updateAI_def bossAI_def moveDefender_wavePhase Let_def)

lemma fold_bulletHit_wavePhase: "wavePhase (fold bulletHit js s) = wavePhase s"
  by (induction js arbitrary: s) (simp_all add: bulletHit_def Let_def)

lemma fold_collectPowerUp_wavePhase: "wavePhase (fold collectPowerUp ks s) = wavePhase s"
proof (induction ks arbitrary: s)
  case Nil
  show ?case by simp
next
  case (Cons k ks)
  have "wavePhase (collectPowerUp k s) = wavePhase s"
    by (cases k) (simp_all add: collectPowerUp_def)
  with Cons show ?case by simp
qed

lemma powerUpTimers_wavePhase: "wavePhase (powerUpTimers s) = wavePhase s"
  by (simp add: powerUpTimers_def Let_def)

lemma quickRespawn_wavePhase: "wavePhase (quickRespawn s) = wavePhase s"
  by (simp add: quickRespawn_def)

lemma takeDamage_wavePhase: "wavePhase (takeDamage p s) = wavePhase s"
  by (simp add: takeDamage_def Let_def)

lemma defenderHit_wavePhase:
  "wavePhase (defenderHit ch i p s) = wavePhase s \<or> wavePhase (defenderHit ch i p s) = Cardpick"
  by (simp add: defenderHit_def Let_def waveComplete_def takeDamage_wavePhase)

lemma resolveProjectile_wavePhase:
  "wavePhase (resolveProjectile ch i p h s) = wavePhase s \<or>
   wavePhase (resolveProjectile ch i p h s) = Cardpick"
  using defenderHit_wavePhase [of ch i p s] by (auto simp: resolveProjectile_def)

lemma projStep_wavePhase:
  "wavePhase (projStep ch i s) = wavePhase s \<or> wavePhase (projStep ch i s) = Cardpick"
proof (cases "i < length (alienProjectiles s)")
  case False
  then show ?thesis by (simp add: projStep_def)
next
  case True
  obtain p h t where r: "projStep ch i s = resolveProjectile ch i p h t" "wavePhase t = wavePhase s"
    using True by (simp add: projStep_def Let_def)
  with resolveProjectile_wavePhase [of ch i p h t] show ?thesis by simp
qed

lemma projLoop_wavePhase:
  "wavePhase (projLoop ch n s) = wavePhase s \<or> wavePhase (projLoop ch n s) = Cardpick"
proof (induction n arbitrary: s)
  case 0
  show ?case by simp
next
  case (Suc n)
  from Suc [of "projStep ch n s"] projStep_wavePhase [of ch n s] show ?case
    by auto
qed

lemma loopCompleted_wavePhase:
  "wavePhase (loopCompleted s) = wavePhase s \<or> wavePhase (loopCompleted s) = Gameover"
  by (simp add: loopCompleted_def Let_def gameLost_def respawnAliens_def)

lemma sequencer_wavePhase:
  "wavePhase (sequencer now s) = wavePhase s \<or> wavePhase (sequencer now s) = Gameover"
  using loopCompleted_wavePhase
    [of "s\<lparr>lastStepTime := now, currentStep := (currentStep s + 1) mod gridCols s\<rparr>"]
  by (auto simp: sequencer_def Let_def fold_stepRow_eq)

lemma playingFrame_wavePhase:
  "wavePhase (playingFrame e s) = wavePhase s \<or> wavePhase (playingFrame e s) = Cardpick \<or>
   wavePhase (playingFrame e s) = Gameover"
proof -
  define s2 where "s2 = (let s1 = (if touchLeft s then moveDefender (- 1) s else s)
                         in if touchRight s1 then moveDefender 1 s1 else s1)"
  define s5 where "s5 = fold bulletHit (e_bulletHits e)
      (let s3 = fireZoneLoop (length (fireZones s2)) s2 in if aiActive s3 then updateAI s3 else s3)"
  define s6 where "s6 = projLoop (e_choices e) (length (alienProjectiles s5)) s5"
  define s8 where "s8 = powerUpTimers (fold collectPowerUp (e_pickups e) s6)"
  have p2: "wavePhase s2 = wavePhase s"
    by (simp add: s2_def Let_def moveDefender_wavePhase)
  have p5: "wavePhase s5 = wavePhase s"
    by (simp add: s5_def Let_def fold_bulletHit_wavePhase updateAI_wavePhase
          fireZoneLoop_wavePhase p2)
  have p6: "wavePhase s6 = wavePhase s \<or> wavePhase s6 = Cardpick"
    using projLoop_wavePhase [of "e_choices e" "length (alienProjectiles s5)" s5]
    by (simp add: s6_def p5)
  have p8: "wavePhase s8 = wavePhase s6"
    by (simp add: s8_def powerUpTimers_wavePhase fold_collectPowerUp_wavePhase)
  have f: "playingFrame e s = quickRespawn (sequencer (e_now e) s8)"
    by (simp add: playingFrame_def Let_def s8_def s6_def s5_def s2_def)
  from sequencer_wavePhase [of "e_now e" s8] p6 p8 show ?thesis
    by (auto simp: f quickRespawn_wavePhase)
qed

lemma applyUpgrade_choices:
  "currentCardChoices (applyUpgrade rnd k s) = currentCardChoices s"
  by (cases k) (simp_all add: applyUpgrade_def Let_def fold_scrambleStep_fields fold_mirrorStep_fields)

lemma updateAIForWave_wavePhase: "wavePhase (updateAIForWave s) = wavePhase s"
  by (simp add: updateAIForWave_def)

lemma respawnAliens_wavePhase: "wavePhase (respawnAliens s) = wavePhase s"
  by (simp add: respawnAliens_def)

lemma selectCard_wavePhase:
  "wavePhase (selectCard rnd i s) =
     (if 0 \<le> i \<and> i < int (length (currentCardChoices s)) then Prepare else wavePhase s)"
  by (simp add: selectCard_def Let_def respawnAliens_wavePhase)

subsection \<open>The phases of a wave\<close>

text \<open>
  Claim C5, as amended.  The phases move along the cycle playing, cardpick, prepare,
  playing.  In one frame of \<open>update\<close> the phase stays as it is or takes one of these
  steps: from prepare to playing, from complete to prepare, from playing to cardpick or
  to gameover; nothing leaves cardpick or gameover inside a frame.  \<open>waveComplete\<close>,
  which the frame calls in the playing phase, leads to cardpick, and \<open>selectCard\<close>,
  which the click handler calls in the cardpick phase, leads to prepare when its index
  names a card on offer and changes nothing otherwise.
\<close>

theorem phase_cycle:
  "(case wavePhase s of
      Playing \<Rightarrow> wavePhase (update e s) \<in> {Playing, Cardpick, Gameover}
    | Prepare \<Rightarrow> wavePhase (update e s) \<in> {Prepare, Playing}
    | Complete \<Rightarrow> wavePhase (update e s) \<in> {Complete, Prepare}
    | Cardpick \<Rightarrow> wavePhase (update e s) = Cardpick
    | Gameover \<Rightarrow> wavePhase (update e s) = Gameover) \<and>
   (wavePhase (update e s) = wavePhase s \<or> wavePhase (update e s) = Gameover \<or>
    codeEdge (wavePhase s) (wavePhase (update e s))) \<and>
   (wavePhase s = Playing \<longrightarrow> codeEdge (wavePhase s) (wavePhase (waveComplete ch s))) \<and>
   (wavePhase s = Cardpick \<longrightarrow>
      (0 \<le> i \<and> i < int (length (currentCardChoices s)) \<longrightarrow>
         codeEdge (wavePhase s) (wavePhase (selectCard rnd i s))) \<and>
      (\<not> (0 \<le> i \<and> i < int (length (currentCardChoices s))) \<longrightarrow> selectCard rnd i s = s))"
proof -
  have u: "case wavePhase s of
      Playing \<Rightarrow> wavePhase (update e s) \<in> {Playing, Cardpick, Gameover}
    | Prepare \<Rightarrow> wavePhase (update e s) \<in> {Prepare, Playing}
    | Complete \<Rightarrow> wavePhase (update e s) \<in> {Complete, Prepare}
    | Cardpick \<Rightarrow> wavePhase (update e s) = Cardpick
    | Gameover \<Rightarrow> wavePhase (update e s) = Gameover"
    using playingFrame_wavePhase [of e s]
    by (cases "wavePhase s")
       (auto simp: update_def Let_def respawnAliens_wavePhase)
  then have v: "wavePhase (update e s) = wavePhase s \<or> wavePhase (update e s) = Gameover \<or>
    codeEdge (wavePhase s) (wavePhase (update e s))"
    by (cases "wavePhase s") (auto simp: codeEdge_def)
  have w: "wavePhase s = Playing \<longrightarrow> codeEdge (wavePhase s) (wavePhase (waveComplete ch s))"
    by (simp add: waveComplete_def Let_def codeEdge_def)
  have c: "wavePhase s = Cardpick \<longrightarrow>
      (0 \<le> i \<and> i < int (length (currentCardChoices s)) \<longrightarrow>
         codeEdge (wavePhase s) (wavePhase (selectCard rnd i s))) \<and>
      (\<not> (0 \<le> i \<and> i < int (length (currentCardChoices s))) \<longrightarrow> selectCard rnd i s = s)"
    by (auto simp: selectCard_wavePhase codeEdge_def) (auto simp: selectCard_def)
  from u v w c show ?thesis by blast
qed

text \<open>
  Claim C5 as stated fails: the frame in which a cannon shot takes the last hit points
  of the defender leads from playing to cardpick, which is no edge of the cycle
  playing, prepare, cardpick or complete, playing.
\<close>

theorem phase_cycle_counterexample:
  "wavePhase killDemo = Playing \<and> wavePhase (update quietEnv killDemo) = Cardpick \<and>
   \<not> specEdge (wavePhase killDemo) (wavePhase (update quietEnv killDemo))"
  by code_simp

theorem phase_cycle_witness:
  "wavePhase killDemo = Playing \<and> wavePhase (update quietEnv killDemo) = Cardpick \<and>
   wavePhase (waveComplete [HpBoost] killDemo) = Cardpick \<and>
   wavePhase wonDemo = Cardpick \<and> (0::int) \<le> 1 \<and> 1 < int (length (currentCardChoices wonDemo)) \<and>
   wavePhase (selectCard (\<lambda>r c. False) 1 wonDemo) = Prepare \<and>
   \<not> (0 \<le> (5::int) \<and> 5 < int (length (currentCardChoices wonDemo))) \<and>
   selectCard (\<lambda>r c. False) 5 wonDemo = wonDemo"
proof -
  have k: "wavePhase killDemo = Playing" by code_simp
  have ku: "wavePhase (update quietEnv killDemo) = Cardpick" by code_simp
  have w: "wavePhase wonDemo = Cardpick" "(0::int) \<le> 1"
    "1 < int (length (currentCardChoices wonDemo))"
    "\<not> (0 \<le> (5::int) \<and> 5 < int (length (currentCardChoices wonDemo)))"
    by code_simp+
  from phase_cycle [where s = killDemo and ch = "[HpBoost]"] k
  have a: "wavePhase (waveComplete [HpBoost] killDemo) = Cardpick"
    by (simp add: codeEdge_def)
  from phase_cycle [where s = wonDemo and i = 1 and rnd = "\<lambda>r c. False"] w
  have b: "wavePhase (selectCard (\<lambda>r c. False) 1 wonDemo) = Prepare"
    by (simp add: codeEdge_def)
  from phase_cycle [where s = wonDemo and i = 5 and rnd = "\<lambda>r c. False"] w
  have c: "selectCard (\<lambda>r c. False) 5 wonDemo = wonDemo"
    by simp
  from k ku w a b c show ?thesis by blast
qed

subsection \<open>The end of the playing phase\<close>

text \<open>
  Claim C6 fails on the burn of a fire zone.  The defender of \<open>burnDemo\<close> has 2 hit
  points and stands in a fire zone whose timer is at 29; the frame takes the hit points
  to 0, yet the phase stays playing and no cards are drawn: \<open>waveComplete\<close> is only
  called after the hit of a projectile.
\<close>

theorem burn_reaches_zero_without_win:
  "wavePhase burnDemo = Playing \<and> defenderHP burnDemo = 2 \<and>
   defenderHP (update quietEnv burnDemo) = 0 \<and>
   wavePhase (update quietEnv burnDemo) = Playing \<and>
   currentCardChoices (update quietEnv burnDemo) = []"
  by code_simp

text \<open>
  A second way in which a frame departs from claim C6: when the shot that wins the wave
  lands in the frame that completes the last loop, \<open>waveComplete\<close> restores the hit
  points, the sequencer of the same frame finds the defender alive after all loops, and
  the won wave ends as a loss.
\<close>

lemma win_overwritten_by_loss:
  "wavePhase lastStepDemo = Playing \<and> defenderHP lastStepDemo = 5 \<and>
   wavePhase (update dueEnv lastStepDemo) = Gameover \<and>
   currentCardChoices (update dueEnv lastStepDemo) = [NapalmRounds, ExtraRow, TempoPush] \<and>
   defenderHP (update dueEnv lastStepDemo) = 75"
  by code_simp

lemma seqInv_tempo: "tempo t = tempo s \<Longrightarrow> seqInv t = seqInv s"
  by (simp add: seqInv_def tempo_def)

lemma toggleGridCell_tempo: "toggleGridCell r c s = Inr s' \<Longrightarrow> tempo s' = tempo s"
  by (auto simp: toggleGridCell_def tempo_def Let_def split: if_splits)

lemma clearGrid_tempo: "tempo (clearGrid s) = tempo s"
  by (simp add: clearGrid_def tempo_def)

lemma fold_presetStep_tempo: "tempo (fold (presetStep pattern) cs s) = tempo s"
  by (induction cs arbitrary: s) (auto simp: presetStep_def tempo_def Let_def)

lemma loadPreset_tempo: "tempo (loadPreset pattern s) = tempo s"
  by (simp add: loadPreset_def Let_def fold_presetStep_tempo clearGrid_tempo)

lemma fold_scrambleStep_tempo: "tempo (fold (scrambleStep rnd) cs s) = tempo s"
  by (induction cs arbitrary: s) (auto simp: scrambleStep_def tempo_def Let_def)

lemma fold_mirrorStep_tempo: "tempo (fold mirrorStep cs s) = tempo s"
  by (induction cs arbitrary: s) (auto simp: mirrorStep_def tempo_def Let_def)

lemma applyUpgrade_seqInv: "seqInv s \<Longrightarrow> seqInv (applyUpgrade rnd k s)"
proof (cases k)
  case Scramble
  then show "seqInv s \<Longrightarrow> seqInv (applyUpgrade rnd k s)"
    by (simp add: applyUpgrade_def seqInv_tempo [OF fold_scrambleStep_tempo])
next
  case MirrorBeat
  then show "seqInv s \<Longrightarrow> seqInv (applyUpgrade rnd k s)"
    by (simp add: applyUpgrade_def seqInv_tempo [OF fold_mirrorStep_tempo])
qed (auto simp: applyUpgrade_def seqInv_def Let_def)

lemma updateAIForWave_tempo: "tempo (updateAIForWave s) = tempo s"
  by (simp add: updateAIForWave_def tempo_def)

lemma respawnAliens_tempo: "tempo (respawnAliens s) = tempo s"
  by (simp add: respawnAliens_def tempo_def)

lemma selectCard_seqInv: "seqInv s \<Longrightarrow> seqInv (selectCard rnd i s)"
proof -
  assume a: "seqInv s"
  have "tempo (selectCard rnd i s) = tempo s \<or>
        tempo (selectCard rnd i s) = tempo (applyUpgrade rnd (currentCardChoices s ! nat i) s)"
    by (simp add: selectCard_def Let_def respawnAliens_tempo)
       (simp add: tempo_def updateAIForWave_tempo [unfolded tempo_def, simplified])
  with a applyUpgrade_seqInv [OF a] show ?thesis
    by (auto dest: seqInv_tempo)
qed

lemma restartGame_tempo: "tempo (restartGame s) = tempo s"
  by (simp add: restartGame_def Let_def respawnAliens_tempo)
     (simp add: tempo_def updateAIForWave_tempo [unfolded tempo_def, simplified])

lemma applyOp_seqInv: "seqInv s \<Longrightarrow> seqInv (applyOp x s)"
proof (cases x)
  case (ToggleGridCell r c)
  assume "seqInv s"
  with ToggleGridCell show ?thesis
    by (auto split: sum.splits dest!: toggleGridCell_tempo dest: seqInv_tempo)
next
  case (LoadPreset pattern)
  assume "seqInv s"
  with LoadPreset show ?thesis by (simp add: seqInv_tempo [OF loadPreset_tempo])
next
  case ClearGrid
  assume "seqInv s"
  with ClearGrid show ?thesis by (simp add: seqInv_tempo [OF clearGrid_tempo])
next
  case (SelectCard rnd i)
  assume "seqInv s"
  with SelectCard show ?thesis by (simp add: selectCard_seqInv)
next
  case RestartGame
  assume "seqInv s"
  with RestartGame show ?thesis by (simp add: seqInv_tempo [OF restartGame_tempo])
qed

lemma setBpm_seqInv: "seqInv s \<Longrightarrow> seqInv (setBpm b s)"
  by (simp add: setBpm_def seqInv_def Let_def)

lemma run_seqInv: "seqInv (run ops newGame)"
proof -
  have "seqInv s \<Longrightarrow> seqInv (fold applyOp ops s)" for s
    by (induction ops arbitrary: s) (simp_all add: applyOp_seqInv)
  moreover have "seqInv newGame"
    by (simp add: seqInv_def newGame_def)
  ultimately show ?thesis by (simp add: run_def)
qed

lemma moveDefender_tempo: "tempo (moveDefender d s) = tempo s"
  by (simp add: moveDefender_def tempo_def Let_def)

lemma fireZoneLoop_tempo: "tempo (fireZoneLoop n s) = tempo s"
proof (induction n arbitrary: s)
  case 0
  show ?case by simp
next
  case (Suc n)
  have "tempo (fireZoneStep n s) = tempo s"
    by (simp add: fireZoneStep_def tempo_def Let_def)
  with Suc show ?case by simp
qed

lemma updateAI_tempo: "tempo (updateAI s) = tempo s"
proof -
  have "tempo (bossAI t) = tempo t" for t
    by (simp add: bossAI_def tempo_def Let_def)
  then show ?thesis
    by (simp add: updateAI_def Let_def moveDefender_tempo)
qed

lemma fold_bulletHit_tempo: "tempo (fold bulletHit js s) = tempo s"
  by (induction js arbitrary: s) (simp_all add: bulletHit_def tempo_def Let_def)

lemma fold_collectPowerUp_tempo: "tempo (fold collectPowerUp ks s) = tempo s"
proof (induction ks arbitrary: s)
  case Nil
  show ?case by simp
next
  case (Cons k ks)
  have "tempo (collectPowerUp k s) = tempo s"
    by (cases k) (simp_all add: collectPowerUp_def tempo_def)
  with Cons show ?case by simp
qed

lemma defenderHit_tempo: "tempo (defenderHit ch i p s) = tempo s"
  by (simp add: defenderHit_def Let_def waveComplete_def takeDamage_def tempo_def)

lemma resolveProjectile_tempo: "tempo (resolveProjectile ch i p h s) = tempo s"
  by (simp add: resolveProjectile_def defenderHit_tempo) (simp add: tempo_def)

lemma projLoop_tempo: "tempo (projLoop ch n s) = tempo s"
proof (induction n arbitrary: s)
  case 0
  show ?case by simp
next
  case (Suc n)
  have "tempo (projStep ch n s) = tempo s"
    by (simp add: projStep_def Let_def resolveProjectile_tempo) (simp add: tempo_def)
  with Suc show ?case by simp
qed

lemma powerUpTimers_tempo: "tempo (powerUpTimers s) = tempo s"
  by (simp add: powerUpTimers_def tempo_def Let_def)

lemma sequencer_tempo: "tempo (sequencer now s) = tempo s"
proof -
  have "tempo (loopCompleted t) = tempo t" for t
    by (simp add: loopCompleted_def Let_def gameLost_def respawnAliens_def tempo_def)
  then show ?thesis
    by (simp add: sequencer_def Let_def fold_stepRow_eq) (simp add: tempo_def)
qed

lemma quickRespawn_tempo: "tempo (quickRespawn s) = tempo s"
  by (simp add: quickRespawn_def tempo_def)

lemma playingFrame_tempo: "tempo (playingFrame e s) = tempo s"
  by (simp add: playingFrame_def Let_def quickRespawn_tempo sequencer_tempo
        powerUpTimers_tempo fold_collectPowerUp_tempo projLoop_tempo fold_bulletHit_tempo
        updateAI_tempo fireZoneLoop_tempo moveDefender_tempo)

lemma update_tempo: "tempo (update e s) = tempo s"
proof (cases "wavePhase s")
  case Playing
  then show ?thesis by (simp add: update_def playingFrame_tempo) (simp add: tempo_def)
next
  case Complete
  then show ?thesis
    by (simp add: update_def Let_def respawnAliens_tempo)
       (simp add: tempo_def updateAIForWave_tempo [unfolded tempo_def, simplified])
qed (simp_all add: update_def tempo_def Let_def)

text \<open>
  The invariant of the sequencer holds in the state the constructor builds and is kept
  by every user operation, by the tempo slider and by every frame.
\<close>

lemma seqInv_kept:
  "seqInv (run ops newGame) \<and>
   (seqInv s \<longrightarrow> seqInv (applyOp x s) \<and> seqInv (setBpm b s) \<and> seqInv (update e s))"
  using run_seqInv applyOp_seqInv setBpm_seqInv seqInv_tempo [OF update_tempo] by blast

lemma moveDefender_clock: "clock (moveDefender d s) = clock s"
  by (simp add: moveDefender_def clock_def Let_def)

lemma fireZoneLoop_clock: "clock (fireZoneLoop n s) = clock s"
proof (induction n arbitrary: s)
  case 0
  show ?case by simp
next
  case (Suc n)
  have "clock (fireZoneStep n s) = clock s"
    by (simp add: fireZoneStep_def clock_def Let_def)
  with Suc show ?case by simp
qed

lemma updateAI_clock: "clock (updateAI s) = clock s"
proof -
  have "clock (bossAI t) = clock t" for t
    by (simp add: bossAI_def clock_def Let_def)
  then show ?thesis
    by (simp add: updateAI_def Let_def moveDefender_clock)
qed

lemma fold_bulletHit_clock: "clock (fold bulletHit js s) = clock s"
  by (induction js arbitrary: s) (simp_all add: bulletHit_def clock_def Let_def)

lemma fold_collectPowerUp_clock: "clock (fold collectPowerUp ks s) = clock s"
proof (induction ks arbitrary: s)
  case Nil
  show ?case by simp
next
  case (Cons k ks)
  have "clock (collectPowerUp k s) = clock s"
    by (cases k) (simp_all add: collectPowerUp_def clock_def)
  with Cons show ?case by simp
qed

lemma defenderHit_clock: "clock (defenderHit ch i p s) = clock s"
  by (simp add: defenderHit_def Let_def waveComplete_def takeDamage_def clock_def)

lemma resolveProjectile_clock: "clock (resolveProjectile ch i p h s) = clock s"
  by (simp add: resolveProjectile_def defenderHit_clock) (simp add: clock_def)

lemma projLoop_clock: "clock (projLoop ch n s) = clock s"
proof (induction n arbitrary: s)
  case 0
  show ?case by simp
next
  case (Suc n)
  have "clock (projStep ch n s) = clock s"
    by (simp add: projStep_def Let_def resolveProjectile_clock) (simp add: clock_def)
  with Suc show ?case by simp
qed

lemma powerUpTimers_clock: "clock (powerUpTimers s) = clock s"
  by (simp add: powerUpTimers_def clock_def Let_def)

lemma quickRespawn_currentStep: "currentStep (quickRespawn s) = currentStep s"
  by (simp add: quickRespawn_def)

lemma sequencer_currentStep:
  "currentStep (sequencer now s) =
     (if now - lastStepTime s \<ge> stepInterval s
      then (currentStep s + 1) mod gridCols s else currentStep s)"
  by (simp add: sequencer_def Let_def fold_stepRow_eq loopCompleted_fields)

text \<open>
  A frame of the playing phase that is neither paused nor frozen advances the step
  exactly when the sequencer is due; a frame in any other phase never advances it by the
  clock.
\<close>

lemma update_currentStep:
  assumes "wavePhase s = Playing" and "\<not> isPaused s" and "\<not> freezeFrames s > 0"
  shows "currentStep (update e s) =
           (if e_now e - lastStepTime s \<ge> stepInterval s
            then (currentStep s + 1) mod gridCols s else currentStep s)"
proof -
  define s8 where "s8 = powerUpTimers (fold collectPowerUp (e_pickups e)
      (let s2 = (let s1 = (if touchLeft s then moveDefender (- 1) s else s)
                 in if touchRight s1 then moveDefender 1 s1 else s1);
           s3 = fireZoneLoop (length (fireZones s2)) s2;
           s5 = fold bulletHit (e_bulletHits e) (if aiActive s3 then updateAI s3 else s3)
       in projLoop (e_choices e) (length (alienProjectiles s5)) s5))"
  have c: "clock s8 = clock s"
    by (simp add: s8_def Let_def powerUpTimers_clock fold_collectPowerUp_clock projLoop_clock
          fold_bulletHit_clock updateAI_clock fireZoneLoop_clock moveDefender_clock)
  have "update e s = quickRespawn (sequencer (e_now e) s8)"
    using assms by (simp add: update_def playingFrame_def Let_def s8_def)
  with c show ?thesis
    by (simp add: quickRespawn_currentStep sequencer_currentStep clock_def)
qed

subsection \<open>The step sequencer\<close>

text \<open>
  Claim C9.  In a state whose \<open>stepInterval\<close> is \<open>(60 / bpm) * 1000 / 4\<close>, with
  the 16 columns of the grid and at most 4 rows (the constructor establishes this, and
  every user operation, the tempo slider and every frame keep it, as \<open>seqInv_kept\<close>
  shows): when the time
  since the last step has reached \<open>stepInterval\<close>, the sequencer block advances
  \<open>currentStep\<close> by one modulo 16, and the rows that play their sound are, in order,
  exactly the rows whose grid cell at the new step is occupied and that have an alive
  alien on that cell; the projectiles added carry exactly these rows.  When the time has
  not been reached, the block changes nothing.  A frame of \<open>update\<close> in the playing
  phase that is neither paused nor frozen advances \<open>currentStep\<close> in exactly the same
  case.
\<close>

theorem sequencer_step:
  assumes "stepInterval s = stepIntervalOf (bpm s)" and "gridCols s = 16" and "gridRows s \<le> 4"
  shows "(now - lastStepTime s \<ge> (60 / of_int (bpm s)) * 1000 / 4 \<longrightarrow>
            currentStep (sequencer now s) = (currentStep s + 1) mod 16 \<and>
            lastStepTime (sequencer now s) = now \<and>
            soundLog (sequencer now s) =
              soundLog s @ filter (firing (sequencer now s)) [0..<gridRows s] \<and>
            (\<exists>new. alienProjectiles (sequencer now s) = alienProjectiles s @ new \<and>
               (\<forall>r. (\<exists>p \<in> set new. p_row p = r) \<longleftrightarrow>
                    r < gridRows s \<and> firing (sequencer now s) r))) \<and>
         (\<not> now - lastStepTime s \<ge> (60 / of_int (bpm s)) * 1000 / 4 \<longrightarrow> sequencer now s = s) \<and>
         (wavePhase s = Playing \<and> \<not> isPaused s \<and> \<not> freezeFrames s > 0 \<longrightarrow>
            currentStep (update e s) =
              (if e_now e - lastStepTime s \<ge> (60 / of_int (bpm s)) * 1000 / 4
               then (currentStep s + 1) mod 16 else currentStep s))"
proof -
  have "wavePhase s = Playing \<and> \<not> isPaused s \<and> \<not> freezeFrames s > 0 \<longrightarrow>
            currentStep (update e s) =
              (if e_now e - lastStepTime s \<ge> (60 / of_int (bpm s)) * 1000 / 4
               then (currentStep s + 1) mod 16 else currentStep s)"
    using update_currentStep [of s e] assms(1,2) by (simp add: stepIntervalOf_def)
  with sequencer_block [OF assms, of now] show ?thesis by blast
qed

theorem sequencer_step_witness:
  "stepInterval stepDemo = stepIntervalOf (bpm stepDemo) \<and> gridCols stepDemo = 16 \<and>
   gridRows stepDemo \<le> 4 \<and>
   125 - lastStepTime stepDemo \<ge> (60 / of_int (bpm stepDemo)) * 1000 / 4 \<and>
   currentStep (sequencer 125 stepDemo) = 0 \<and>
   soundLog (sequencer 125 stepDemo) = [0, 1, 2] \<and>
   \<not> 124 - lastStepTime stepDemo \<ge> (60 / of_int (bpm stepDemo)) * 1000 / 4 \<and>
   sequencer 124 stepDemo = stepDemo \<and>
   wavePhase stepDemo = Playing \<and> \<not> isPaused stepDemo \<and> \<not> freezeFrames stepDemo > 0 \<and>
   currentStep (update dueEnv stepDemo) = 0 \<and> currentStep (update quietEnv stepDemo) = 15"
proof -
  have h: "stepInterval stepDemo = stepIntervalOf (bpm stepDemo)" "gridCols stepDemo = 16"
    "gridRows stepDemo \<le> 4"
    by code_simp+
  have d: "125 - lastStepTime stepDemo \<ge> (60 / of_int (bpm stepDemo)) * 1000 / 4"
    "\<not> 124 - lastStepTime stepDemo \<ge> (60 / of_int (bpm stepDemo)) * 1000 / 4"
    by code_simp+
  have v: "currentStep stepDemo = 15" "soundLog stepDemo = []" "gridRows stepDemo = 3"
    by code_simp+
  have f: "filter (firing (sequencer 125 stepDemo)) [0..<3] = [0, 1, 2]"
    by code_simp
  have g: "wavePhase stepDemo = Playing" "\<not> isPaused stepDemo" "\<not> freezeFrames stepDemo > 0"
    by code_simp+
  have n: "e_now dueEnv - lastStepTime stepDemo \<ge> (60 / of_int (bpm stepDemo)) * 1000 / 4"
    "\<not> e_now quietEnv - lastStepTime stepDemo \<ge> (60 / of_int (bpm stepDemo)) * 1000 / 4"
    by code_simp+
  from sequencer_step [OF h, of 125] d(1) v f
  have a: "currentStep (sequencer 125 stepDemo) = 0 \<and> soundLog (sequencer 125 stepDemo) = [0, 1, 2]"
    by simp
  from sequencer_step [OF h, of 124] d(2)
  have b: "sequencer 124 stepDemo = stepDemo" by blast
  from sequencer_step [OF h, where e = dueEnv] g n(1) v
  have c: "currentStep (update dueEnv stepDemo) = 0" by simp
  from sequencer_step [OF h, where e = quietEnv] g n(2) v
  have c': "currentStep (update quietEnv stepDemo) = 15" by simp
  from h d a b g c c' show ?thesis by simp
qed

end
